theory Spec2Isabelle
  imports Main
begin

text \<open>
  A shallow embedding of the snippetbox web application (cmd/web): the helpers that
  build responses and template data, the snippet view handler, the handler that
  \<^verbatim>\<open>routes\<close> composes from middlewares and the router, the file server for static files
  and the TLS listener. The library calls the program makes (net/http, strconv, alice,
  httprouter, scs, nosurf, crypto/tls) are modelled as far as the program uses them.
  Definitions come first, the properties after them.
\<close>

section \<open>Values, requests and the response writer\<close>

text \<open>
  Go interface values (\<^verbatim>\<open>any\<close>) that the request context and the session hold.
  \<open>VNil\<close> is the nil interface, which is what \<^verbatim>\<open>ctx.Value(k)\<close> returns for a key that
  was never set.
\<close>

datatype any = VNil | VBool bool | VString string | VInt int

text \<open>
  Keys of the request context. \<^verbatim>\<open>isAuthenticatedContextKey\<close> is a package constant of type
  \<^verbatim>\<open>contextKey\<close> (a string type); helpers.go reads the context under it.
\<close>

datatype contextKey = ContextKey string

definition isAuthenticatedContextKey :: contextKey where
  "isAuthenticatedContextKey = ContextKey ''isAuthenticated''"

text \<open>
  The part of \<^verbatim>\<open>*http.Request\<close> the handlers and helpers read.
  \<open>RawQuery\<close> is \<^verbatim>\<open>r.URL.RawQuery\<close> and \<open>query\<close> is \<^verbatim>\<open>r.URL.Query()\<close> (the query string
  parsed, in order), \<open>cookie\<close> is the value of the session cookie, if the request has one,
  \<open>ctx\<close> is \<^verbatim>\<open>r.Context()\<close> as a map from keys to values,
  \<open>csrfToken\<close> is what \<^verbatim>\<open>nosurf.Token(r)\<close> returns for the request and
  \<open>csrfSubmitted\<close> the token the client sent back with a form.
\<close>

record request =
  Method :: string
  URLPath :: string
  Proto :: string
  RawQuery :: string
  query :: "(string \<times> string) list"
  cookie :: "string option"
  ctx :: "contextKey \<rightharpoonup> any"
  csrfToken :: string
  csrfSubmitted :: string

definition ctx_Value :: "request \<Rightarrow> contextKey \<Rightarrow> any" where
  "ctx_Value r k = (case ctx r k of None \<Rightarrow> VNil | Some v \<Rightarrow> v)"

section \<open>helpers.go: isAuthenticated\<close>

text \<open>
  \<^verbatim>\<open>isAuthenticated, ok := r.Context().Value(isAuthenticatedContextKey).(bool)\<close>:
  the type assertion with the comma-ok form yields \<open>ok = false\<close> for nil and for every
  value that is not a bool, and never panics.
\<close>

fun assertBool :: "any \<Rightarrow> bool \<times> bool" where
  "assertBool (VBool b) = (b, True)"
| "assertBool _ = (False, False)"

definition isAuthenticated :: "request \<Rightarrow> bool" where
  "isAuthenticated r =
     (let (isAuth, ok) = assertBool (ctx_Value r isAuthenticatedContextKey)
      in if \<not> ok then False else isAuth)"

fun isBool :: "any \<Rightarrow> bool" where
  "isBool (VBool _) = True"
| "isBool _ = False"

text \<open>
  \<^verbatim>\<open>http.ResponseWriter\<close>. \<open>header\<close> is the mutable header map \<^verbatim>\<open>w.Header()\<close>;
  \<open>sent\<close> is the status line and the headers as they went to the client, \<open>None\<close> while
  nothing has been sent; \<open>body\<close> is what was written after them.
\<close>

record responseWriter =
  header :: "string \<rightharpoonup> string list"
  sent :: "(nat \<times> (string \<rightharpoonup> string list)) option"
  body :: string

definition newResponseWriter :: responseWriter where
  "newResponseWriter = \<lparr>header = Map.empty, sent = None, body = []\<rparr>"

definition Header_Set :: "responseWriter \<Rightarrow> string \<Rightarrow> string \<Rightarrow> responseWriter" where
  "Header_Set w k v = w\<lparr>header := (header w)(k \<mapsto> [v])\<rparr>"

text \<open>
  \<^verbatim>\<open>w.WriteHeader(code)\<close> sends the status line with the headers set so far; a second call
  is ignored by net/http (it only logs). \<^verbatim>\<open>w.Write(b)\<close> sends an implicit 200 first when no
  header went out yet. Content-Type sniffing by \<^verbatim>\<open>Write\<close> is left out.
\<close>

definition WriteHeader :: "responseWriter \<Rightarrow> nat \<Rightarrow> responseWriter" where
  "WriteHeader w code =
     (case sent w of None \<Rightarrow> w\<lparr>sent := Some (code, header w)\<rparr> | Some _ \<Rightarrow> w)"

definition Write :: "responseWriter \<Rightarrow> string \<Rightarrow> responseWriter" where
  "Write w b =
     (let w' = (if sent w = None then WriteHeader w 200 else w)
      in w'\<lparr>body := body w' @ b\<rparr>)"

definition statusCode :: "responseWriter \<Rightarrow> nat option" where
  "statusCode w = map_option fst (sent w)"

definition newline :: string where
  "newline = [CHR 0x0A]"

text \<open>\<^verbatim>\<open>http.StatusText\<close>: the table of net/http; a code outside it gives the empty string.\<close>

definition statusTable :: "(nat \<times> string) list" where
  "statusTable =
    [(100, ''Continue''), (101, ''Switching Protocols''), (102, ''Processing''),
     (103, ''Early Hints''), (200, ''OK''), (201, ''Created''), (202, ''Accepted''),
     (203, ''Non-Authoritative Information''), (204, ''No Content''),
     (205, ''Reset Content''), (206, ''Partial Content''), (207, ''Multi-Status''),
     (208, ''Already Reported''), (226, ''IM Used''), (300, ''Multiple Choices''),
     (301, ''Moved Permanently''), (302, ''Found''), (303, ''See Other''),
     (304, ''Not Modified''), (305, ''Use Proxy''), (307, ''Temporary Redirect''),
     (308, ''Permanent Redirect''), (400, ''Bad Request''), (401, ''Unauthorized''),
     (402, ''Payment Required''), (403, ''Forbidden''), (404, ''Not Found''),
     (405, ''Method Not Allowed''), (406, ''Not Acceptable''),
     (407, ''Proxy Authentication Required''), (408, ''Request Timeout''),
     (409, ''Conflict''), (410, ''Gone''), (411, ''Length Required''),
     (412, ''Precondition Failed''), (413, ''Request Entity Too Large''),
     (414, ''Request URI Too Long''), (415, ''Unsupported Media Type''),
     (416, ''Requested Range Not Satisfiable''), (417, ''Expectation Failed''),
     (418, ''I'' @ [CHR 0x27] @ ''m a teapot''), (421, ''Misdirected Request''),
     (422, ''Unprocessable Entity''), (423, ''Locked''), (424, ''Failed Dependency''),
     (425, ''Too Early''), (426, ''Upgrade Required''), (428, ''Precondition Required''),
     (429, ''Too Many Requests''), (431, ''Request Header Fields Too Large''),
     (451, ''Unavailable For Legal Reasons''), (500, ''Internal Server Error''),
     (501, ''Not Implemented''), (502, ''Bad Gateway''), (503, ''Service Unavailable''),
     (504, ''Gateway Timeout''), (505, ''HTTP Version Not Supported''),
     (506, ''Variant Also Negotiates''), (507, ''Insufficient Storage''),
     (508, ''Loop Detected''), (510, ''Not Extended''),
     (511, ''Network Authentication Required'')]"

definition StatusText :: "nat \<Rightarrow> string" where
  "StatusText code = (case map_of statusTable code of None \<Rightarrow> [] | Some t \<Rightarrow> t)"

definition StatusInternalServerError :: nat where "StatusInternalServerError = 500"
definition StatusNotFound :: nat where "StatusNotFound = 404"
definition StatusBadRequest :: nat where "StatusBadRequest = 400"
definition StatusMovedPermanently :: nat where "StatusMovedPermanently = 301"
definition StatusSeeOther :: nat where "StatusSeeOther = 303"
definition StatusOK :: nat where "StatusOK = 200"

text \<open>
  \<^verbatim>\<open>http.Error(w, error, code)\<close>: sets the two headers, writes the status and prints the
  message followed by a newline (\<^verbatim>\<open>fmt.Fprintln\<close>).
\<close>

definition http_Error :: "responseWriter \<Rightarrow> string \<Rightarrow> nat \<Rightarrow> responseWriter" where
  "http_Error w msg code =
     (let w1 = Header_Set w ''Content-Type'' ''text/plain; charset=utf-8'';
          w2 = Header_Set w1 ''X-Content-Type-Options'' ''nosniff'';
          w3 = WriteHeader w2 code
      in Write w3 (msg @ newline))"

text \<open>\<^verbatim>\<open>http.NotFound(w, r)\<close> is \<^verbatim>\<open>Error(w, "404 page not found", StatusNotFound)\<close>.\<close>

definition http_NotFound :: "responseWriter \<Rightarrow> responseWriter" where
  "http_NotFound w = http_Error w ''404 page not found'' StatusNotFound"

section \<open>The state a request runs in\<close>

text \<open>
  What the handlers, helpers and middlewares read and change while one request is served:
  the response under construction, the two loggers of the \<^verbatim>\<open>application\<close> struct, the
  session data that the session middleware put into the request context (\<open>None\<close>: there
  is no session data in the context), the session store (the data kept under each
  token, whether the store fails, and the token a new session would get), the ids of the
  users in the user store, a fault raised and not yet recovered, and the two readings
  of the environment the helpers take: \<^verbatim>\<open>debug.Stack()\<close> and \<^verbatim>\<open>time.Now().Year()\<close>.
\<close>

record world =
  resp :: responseWriter
  errorLog :: "string list"
  infoLog :: "string list"
  session :: "(string \<rightharpoonup> any) option"
  sessionStore :: "string \<rightharpoonup> (string \<rightharpoonup> any)"
  storeDown :: bool
  newToken :: string
  userIDs :: "int list"
  panicked :: "string option"
  stackDump :: string
  clockYear :: int

type_synonym handlerFn = "request \<Rightarrow> world \<Rightarrow> world"

section \<open>helpers.go: serverError, clientError, notFound\<close>

text \<open>
  \<^verbatim>\<open>trace := fmt.Sprintf("%s\n%s", err.Error(), debug.Stack())\<close>, then
  \<^verbatim>\<open>app.errorLog.Output(2, trace)\<close>, then the generic 500 through \<^verbatim>\<open>http.Error\<close>.
  An error is its message. A log entry is the text handed to the logger (prefix, date
  and file name are the logger's).
\<close>

definition serverError :: "world \<Rightarrow> string \<Rightarrow> world" where
  "serverError s err =
     (let trace = err @ newline @ stackDump s;
          s1 = s\<lparr>errorLog := errorLog s @ [trace]\<rparr>
      in s1\<lparr>resp := http_Error (resp s1) (StatusText StatusInternalServerError)
                        StatusInternalServerError\<rparr>)"

definition clientError :: "world \<Rightarrow> nat \<Rightarrow> world" where
  "clientError s status = s\<lparr>resp := http_Error (resp s) (StatusText status) status\<rparr>"

definition notFound :: "world \<Rightarrow> world" where
  "notFound s = clientError s StatusNotFound"

section \<open>helpers.go: newTemplateData\<close>

text \<open>
  The fields of \<^verbatim>\<open>templateData\<close> that \<^verbatim>\<open>newTemplateData\<close> sets. The struct is declared in
  templates.go; a field the composite literal does not name keeps its zero value.
\<close>

record templateData =
  Flash :: string
  CurrentYear :: int
  IsAuthenticated :: bool
  CSRFToken :: string

text \<open>
  \<^verbatim>\<open>SessionManager.Pop\<close> of scs: panics when the context carries no session data;
  otherwise returns the value under the key (nil when there is none) and deletes the key.
  \<^verbatim>\<open>PopString\<close> returns the empty string unless the popped value is a string.
\<close>

definition Pop :: "world \<Rightarrow> string \<Rightarrow> string + (any \<times> world)" where
  "Pop s key =
     (case session s of
        None \<Rightarrow> Inl ''scs: no session data in context''
      | Some d \<Rightarrow>
          (case d key of
             None \<Rightarrow> Inr (VNil, s)
           | Some v \<Rightarrow> Inr (v, s\<lparr>session := Some (d(key := None))\<rparr>)))"

fun assertString :: "any \<Rightarrow> string \<times> bool" where
  "assertString (VString x) = (x, True)"
| "assertString _ = ([], False)"

definition PopString :: "world \<Rightarrow> string \<Rightarrow> string + (string \<times> world)" where
  "PopString s key =
     (case Pop s key of
        Inl p \<Rightarrow> Inl p
      | Inr (val, s') \<Rightarrow>
          (let (str, ok) = assertString val in if \<not> ok then Inr ([], s') else Inr (str, s')))"

text \<open>
  The composite literal is evaluated field by field; a panic of \<^verbatim>\<open>PopString\<close> leaves the
  function (\<open>Inl\<close>).
\<close>

definition newTemplateData :: "request \<Rightarrow> world \<Rightarrow> string + (templateData \<times> world)" where
  "newTemplateData r s =
     (case PopString s ''flash'' of
        Inl p \<Rightarrow> Inl p
      | Inr (flash, s') \<Rightarrow>
          Inr (\<lparr>Flash = flash,
                CurrentYear = clockYear s',
                IsAuthenticated = isAuthenticated r,
                CSRFToken = csrfToken r\<rparr>, s'))"

section \<open>helpers.go: render\<close>

text \<open>
  A parsed template set is what \<^verbatim>\<open>ts.ExecuteTemplate(buf, "base", data)\<close> does with it: the
  bytes it wrote into the buffer, and the error it stopped with, if any. A failing
  execution may have written part of the page before it stopped.
\<close>

type_synonym template = "templateData \<Rightarrow> string \<times> string option"

record application =
  templateCache :: "string \<rightharpoonup> template"

text \<open>\<^verbatim>\<open>buf.WriteTo(w)\<close> calls \<^verbatim>\<open>w.Write\<close> only when the buffer holds bytes.\<close>

definition Buffer_WriteTo :: "string \<Rightarrow> responseWriter \<Rightarrow> responseWriter" where
  "Buffer_WriteTo buf w = (if buf = [] then w else Write w buf)"

definition render :: "application \<Rightarrow> world \<Rightarrow> nat \<Rightarrow> string \<Rightarrow> templateData \<Rightarrow> world" where
  "render app s status page data =
     (case templateCache app page of
        None \<Rightarrow> serverError s (''the template '' @ page @ '' does not exist'')
      | Some ts \<Rightarrow>
          (case ts data of
             (buf, Some err) \<Rightarrow> serverError s err
           | (buf, None) \<Rightarrow>
               s\<lparr>resp := Buffer_WriteTo buf (WriteHeader (resp s) status)\<rparr>))"

text \<open>
  The two ways \<^verbatim>\<open>render\<close> can fail: no entry for the page in the cache, or an execution
  that returns an error.
\<close>

definition renderFails :: "application \<Rightarrow> string \<Rightarrow> templateData \<Rightarrow> bool" where
  "renderFails app page data =
     (case templateCache app page of None \<Rightarrow> True | Some ts \<Rightarrow> snd (ts data) \<noteq> None)"

section \<open>strconv.Atoi and the snippetView handler of main.go\<close>

text \<open>
  \<^verbatim>\<open>strconv.Atoi\<close> for a 64-bit \<^verbatim>\<open>int\<close>: an optional sign, then decimal digits only; the
  empty string and any other byte are a syntax error, a value outside the range of
  \<^verbatim>\<open>int\<close> is a range error. The digits are read left to right, so an overflow of the
  unsigned accumulator is reported where it happens.
\<close>

datatype numError = ErrSyntax | ErrRange

definition isDigit :: "char \<Rightarrow> bool" where
  "isDigit c = (48 \<le> (of_char c :: nat) \<and> (of_char c :: nat) \<le> 57)"

definition digitVal :: "char \<Rightarrow> nat" where
  "digitVal c = of_char c - 48"

definition maxUint64 :: nat where
  "maxUint64 = 2 ^ 64 - 1"

fun parseUint :: "nat \<Rightarrow> string \<Rightarrow> numError + nat" where
  "parseUint n [] = Inr n"
| "parseUint n (c # cs) =
     (if \<not> isDigit c then Inl ErrSyntax
      else if n * 10 + digitVal c > maxUint64 then Inl ErrRange
      else parseUint (n * 10 + digitVal c) cs)"

definition ParseUint :: "string \<Rightarrow> numError + nat" where
  "ParseUint s = (if s = [] then Inl ErrSyntax else parseUint 0 s)"

definition ParseInt :: "string \<Rightarrow> numError + int" where
  "ParseInt s =
     (if s = [] then Inl ErrSyntax
      else
        let neg = (hd s = CHR ''-'');
            s' = (if hd s = CHR ''+'' \<or> hd s = CHR ''-'' then tl s else s)
        in case ParseUint s' of
             Inl err \<Rightarrow> Inl err
           | Inr un \<Rightarrow>
               if \<not> neg \<and> un \<ge> 2 ^ 63 then Inl ErrRange
               else if neg \<and> un > 2 ^ 63 then Inl ErrRange
               else Inr (if neg then - int un else int un))"

definition Atoi :: "string \<Rightarrow> numError + int" where
  "Atoi s = ParseInt s"

text \<open>The decimal text \<^verbatim>\<open>fmt.Fprint\<close> writes for an \<^verbatim>\<open>int\<close> operand.\<close>

fun natToDec :: "nat \<Rightarrow> string" where
  "natToDec n =
     (if n < 10 then [''0123456789'' ! n]
      else natToDec (n div 10) @ [''0123456789'' ! (n mod 10)])"

declare natToDec.simps [simp del]

definition Itoa :: "int \<Rightarrow> string" where
  "Itoa i = (if i < 0 then CHR ''-'' # natToDec (nat (- i)) else natToDec (nat i))"

text \<open>\<^verbatim>\<open>url.Values.Get\<close>: the first value under the key, the empty string when there is none.\<close>

definition Values_Get :: "(string \<times> string) list \<Rightarrow> string \<Rightarrow> string" where
  "Values_Get q k = (case map_of q k of None \<Rightarrow> [] | Some v \<Rightarrow> v)"

text \<open>
  \<^verbatim>\<open>snippetView\<close>, from the stand-alone program at the end of main.go (its own \<^verbatim>\<open>main\<close>
  serves \<^verbatim>\<open>home\<close>, \<^verbatim>\<open>snippetView\<close> and \<^verbatim>\<open>snippetCreate\<close> from a \<^verbatim>\<open>ServeMux\<close>; the handler
  methods that routes.go registers are in handlers.go, outside the sources at hand).
  The id is read from the query string; on a parse error or an id below
  1 the handler answers with \<^verbatim>\<open>http.NotFound\<close> and returns. Otherwise it calls
  \<^verbatim>\<open>fmt.Fprint\<close> with the format text and the id as two operands, which prints them one
  after the other (no space is put next to a string operand).
\<close>

definition snippetView :: "request \<Rightarrow> responseWriter \<Rightarrow> responseWriter" where
  "snippetView r w =
     (case Atoi (Values_Get (query r) ''id'') of
        Inl err \<Rightarrow> http_NotFound w
      | Inr idn \<Rightarrow>
          if idn < 1 then http_NotFound w
          else Write w (''Display a specific snippet with ID %d...'' @ Itoa idn))"

text \<open>
  The specification's reading of a numeric id, for comparison with \<open>Atoi\<close>: an optional
  sign followed by at least one decimal digit.
\<close>

definition isIntegerLiteral :: "string \<Rightarrow> bool" where
  "isIntegerLiteral s =
     (case s of
        [] \<Rightarrow> False
      | c # cs \<Rightarrow>
          if c = CHR ''+'' \<or> c = CHR ''-'' then cs \<noteq> [] \<and> list_all isDigit cs
          else list_all isDigit (c # cs))"

section \<open>routes.go: the handler that routes() returns\<close>

text \<open>
  \<^verbatim>\<open>routes\<close> builds its handler from function values: middleware constructors
  (\<^verbatim>\<open>func(http.Handler) http.Handler\<close>), handler methods of the application and the
  router. The model keeps the construction as a term: a tag for every middleware and
  every handler function that routes.go names, \<open>Wrap m h\<close> for the application \<^verbatim>\<open>m(h)\<close>
  of a middleware to a handler, and \<open>Mux\<close> for the httprouter with its table of
  (method, pattern, handler) and its \<^verbatim>\<open>NotFound\<close> handler. \<open>serve\<close> below gives the
  term its behaviour.
\<close>

datatype middlewareTag =
  RecoverPanic | LogRequest | SecureHeaders | SessionLoadAndSave | NoSurf | Authenticate
  | RequireAuthentication

datatype handlerFunc =
  Home | SnippetView | UserSignup | UserSignupPost | UserLoginPost | UserLogin
  | SnippetCreatePost | SnippetCreate | UserLogoutPost

datatype handler =
    HandlerFunc handlerFunc
  | FileServer
  | NotFoundFunc
  | Wrap middlewareTag handler
  | Mux "(string \<times> string \<times> handler) list" "handler option"

text \<open>
  The alice package. A chain is its slice of constructors; \<^verbatim>\<open>Append\<close> returns a new
  chain with more constructors at the end; \<^verbatim>\<open>Then\<close> runs
  \<^verbatim>\<open>for i := range c.constructors { h = c.constructors[len(c.constructors)-1-i](h) }\<close>,
  so the last constructor is applied first and the first one ends up outermost.
\<close>

type_synonym chain = "middlewareTag list"

definition alice_New :: "middlewareTag list \<Rightarrow> chain" where
  "alice_New constructors = constructors"

definition Append :: "chain \<Rightarrow> middlewareTag list \<Rightarrow> chain" where
  "Append c constructors = c @ constructors"

definition Then :: "chain \<Rightarrow> handler \<Rightarrow> handler" where
  "Then c h = fold Wrap (rev c) h"

definition ThenFunc :: "chain \<Rightarrow> handlerFunc \<Rightarrow> handler" where
  "ThenFunc c fn = Then c (HandlerFunc fn)"

text \<open>
  The httprouter. \<^verbatim>\<open>router.Handler(method, path, h)\<close> adds one entry; the checks that
  httprouter makes at registration (a path must begin with a slash, no two conflicting
  entries) are not modelled.
\<close>

record router =
  table :: "(string \<times> string \<times> handler) list"
  NotFound :: "handler option"

definition httprouter_New :: router where
  "httprouter_New = \<lparr>table = [], NotFound = None\<rparr>"

definition Router_Handler :: "router \<Rightarrow> string \<Rightarrow> string \<Rightarrow> handler \<Rightarrow> router" where
  "Router_Handler rt method path h = rt\<lparr>table := table rt @ [(method, path, h)]\<rparr>"

definition routerHandler :: "router \<Rightarrow> handler" where
  "routerHandler rt = Mux (table rt) (NotFound rt)"

definition MethodGet :: string where "MethodGet = ''GET''"
definition MethodPost :: string where "MethodPost = ''POST''"

definition routes :: handler where
  "routes =
     (let router0 = httprouter_New;
          router1 = router0\<lparr>NotFound := Some NotFoundFunc\<rparr>;
          fileServer = FileServer;
          router2 = Router_Handler router1 MethodGet ''/static/*filepath'' fileServer;
          dynamic = alice_New [SessionLoadAndSave, NoSurf, Authenticate];
          router3 = Router_Handler router2 MethodGet ''/'' (ThenFunc dynamic Home);
          router4 = Router_Handler router3 MethodGet ''/snippet/view/:id'' (ThenFunc dynamic SnippetView);
          router5 = Router_Handler router4 MethodGet ''/user/signup'' (ThenFunc dynamic UserSignup);
          router6 = Router_Handler router5 MethodPost ''/user/signup'' (ThenFunc dynamic UserSignupPost);
          router7 = Router_Handler router6 MethodPost ''/user/login'' (ThenFunc dynamic UserLoginPost);
          router8 = Router_Handler router7 MethodGet ''/user/login'' (ThenFunc dynamic UserLogin);
          protected = Append dynamic [RequireAuthentication];
          router9 = Router_Handler router8 MethodPost ''/snippet/create'' (ThenFunc protected SnippetCreatePost);
          router10 = Router_Handler router9 MethodGet ''/snippet/create'' (ThenFunc protected SnippetCreate);
          router11 = Router_Handler router10 MethodPost ''/user/logout'' (ThenFunc protected UserLogoutPost);
          standard = alice_New [RecoverPanic, LogRequest, SecureHeaders]
      in Then standard (routerHandler router11))"

text \<open>
  Matching a request path against a registered pattern, segment by segment, for the
  pattern forms routes.go uses: a literal segment matches itself, \<^verbatim>\<open>:name\<close> matches one
  non-empty segment, \<^verbatim>\<open>*name\<close> matches the rest of the path. The patterns registered for
  one method do not overlap, so the first entry that matches is the entry httprouter's
  tree finds. Path parameters are not passed on.
\<close>

fun splitSlash :: "string \<Rightarrow> string list" where
  "splitSlash [] = [[]]"
| "splitSlash (c # cs) =
     (if c = CHR ''/'' then [] # splitSlash cs
      else (case splitSlash cs of [] \<Rightarrow> [[c]] | seg # segs \<Rightarrow> (c # seg) # segs))"

fun matchSegs :: "string list \<Rightarrow> string list \<Rightarrow> bool" where
  "matchSegs [] [] = True"
| "matchSegs [] (s # ss) = False"
| "matchSegs (p # ps) [] = False"
| "matchSegs (p # ps) (s # ss) =
     (case p of
        [] \<Rightarrow> s = [] \<and> matchSegs ps ss
      | c # name \<Rightarrow>
          if c = CHR ''*'' then True
          else if c = CHR '':'' then s \<noteq> [] \<and> matchSegs ps ss
          else p = s \<and> matchSegs ps ss)"

definition matchPattern :: "string \<Rightarrow> string \<Rightarrow> bool" where
  "matchPattern pattern path = matchSegs (splitSlash pattern) (splitSlash path)"

definition getValue :: "(string \<times> string \<times> 'h) list \<Rightarrow> string \<Rightarrow> string \<Rightarrow> 'h option" where
  "getValue tbl method path =
     map_option (\<lambda>(m, p, h). h)
       (find (\<lambda>(m, p, h). m = method \<and> matchPattern p path) tbl)"

text \<open>
  \<^verbatim>\<open>Router.ServeHTTP\<close>: the handler of the entry found for the request's method and path
  runs; for a request that matches no entry the router itself answers (trailing-slash
  and fixed-path redirects, OPTIONS, 405, and last the \<^verbatim>\<open>NotFound\<close> handler), which is
  the parameter \<open>unmatched\<close>.
\<close>

definition Router_ServeHTTP ::
  "(string \<times> string \<times> handlerFn) list \<Rightarrow> handlerFn \<Rightarrow> handlerFn" where
  "Router_ServeHTTP tbl unmatched r s =
     (case getValue tbl (Method r) (URLPath r) of
        Some handle \<Rightarrow> handle r s
      | None \<Rightarrow> unmatched r s)"

text \<open>
  The behaviour of a handler term, given the behaviour of each middleware, of each
  handler function, of the file server, and of the router on an unmatched request (as a
  function of the \<^verbatim>\<open>NotFound\<close> handler). The \<^verbatim>\<open>NotFound\<close> handler of routes.go is the closure
  that calls \<^verbatim>\<open>app.notFound(w)\<close>.
\<close>

record impl =
  mwSem :: "middlewareTag \<Rightarrow> handlerFn \<Rightarrow> handlerFn"
  hfSem :: "handlerFunc \<Rightarrow> handlerFn"
  fileSem :: handlerFn
  unmatchedSem :: "handlerFn \<Rightarrow> handlerFn"

fun serve :: "impl \<Rightarrow> handler \<Rightarrow> handlerFn" where
  "serve I (HandlerFunc f) = hfSem I f"
| "serve I FileServer = fileSem I"
| "serve I NotFoundFunc = (\<lambda>r s. notFound s)"
| "serve I (Wrap m h) = mwSem I m (serve I h)"
| "serve I (Mux tbl nf) =
     Router_ServeHTTP (map (map_prod id (map_prod id (serve I))) tbl)
       (unmatchedSem I
          (case map_option (serve I) nf of
             None \<Rightarrow> (\<lambda>r s. s\<lparr>resp := http_NotFound (resp s)\<rparr>)
           | Some h \<Rightarrow> h))"

text \<open>
  Reading a handler term: the middlewares wrapped around it, outermost first; what they
  wrap; the table of a router; and, for a method and a path, the middlewares a request
  passes on its way to the handler that the router finds for it.
\<close>

fun middlewares :: "handler \<Rightarrow> middlewareTag list" where
  "middlewares (Wrap m h) = m # middlewares h"
| "middlewares _ = []"

fun innermost :: "handler \<Rightarrow> handler" where
  "innermost (Wrap m h) = innermost h"
| "innermost h = h"

fun routeTable :: "handler \<Rightarrow> (string \<times> string \<times> handler) list" where
  "routeTable (Mux tbl nf) = tbl"
| "routeTable _ = []"

definition pipeline :: "handler \<Rightarrow> string \<Rightarrow> string \<Rightarrow> middlewareTag list \<times> handler" where
  "pipeline h method path =
     (case getValue (routeTable (innermost h)) method path of
        Some h' \<Rightarrow> (middlewares h @ middlewares h', innermost h')
      | None \<Rightarrow> (middlewares h, innermost h))"

text \<open>
  The routes as the specification lists them: the nine application routes, and the three
  among them that require authentication.
\<close>

definition dynamicRoutes :: "(string \<times> string) list" where
  "dynamicRoutes =
     [(''GET'', ''/''), (''GET'', ''/snippet/view/:id''), (''GET'', ''/snippet/create''),
      (''POST'', ''/snippet/create''), (''GET'', ''/user/signup''), (''POST'', ''/user/signup''),
      (''GET'', ''/user/login''), (''POST'', ''/user/login''), (''POST'', ''/user/logout'')]"

definition protectedRoutes :: "(string \<times> string) list" where
  "protectedRoutes =
     [(''POST'', ''/snippet/create''), (''GET'', ''/snippet/create''), (''POST'', ''/user/logout'')]"

definition routeIn :: "(string \<times> string) list \<Rightarrow> string \<Rightarrow> string \<Rightarrow> bool" where
  "routeIn rs method path = list_ex (\<lambda>(m, p). m = method \<and> matchPattern p path) rs"

text \<open>
  Two tools for the proofs about matching: \<^verbatim>\<open>strings.Join(segs, "/")\<close>, which undoes
  \<open>splitSlash\<close>, and the patterns without a parameter, which match one path only.
\<close>

fun joinSlash :: "string list \<Rightarrow> string" where
  "joinSlash [] = []"
| "joinSlash [x] = x"
| "joinSlash (x # y # ys) = x @ CHR ''/'' # joinSlash (y # ys)"

definition staticSegs :: "string list \<Rightarrow> bool" where
  "staticSegs ps = list_all (\<lambda>p. p = [] \<or> (hd p \<noteq> CHR ''*'' \<and> hd p \<noteq> CHR '':'')) ps"

section \<open>routes.go: the file server for /static/\<close>

text \<open>
  \<^verbatim>\<open>http.FileServer(http.FS(ui.Files))\<close>. The embedded file system \<^verbatim>\<open>ui.Files\<close> is declared
  outside the sources at hand, so the file system is a parameter: what \<^verbatim>\<open>Open\<close> returns for
  a name (names as \<^verbatim>\<open>http.FileSystem\<close> takes them, with the leading slash), \<open>None\<close> when
  the name does not exist, the only error an embedded file system gives. A directory
  carries its entries, sorted by name, each with the flag that it is a directory itself.
\<close>

datatype fsnode = File string | Dir "(string \<times> bool) list"

type_synonym fileSystem = "string \<Rightarrow> fsnode option"

fun isDir :: "fsnode \<Rightarrow> bool" where
  "isDir (Dir es) = True"
| "isDir (File c) = False"

text \<open>
  \<^verbatim>\<open>path.Clean\<close> on a rooted path: empty and dot segments go, a dot-dot segment takes the
  segment before it with it (at the root it just goes), and the result has no trailing
  slash.
\<close>

fun cleanSegs :: "string list \<Rightarrow> string list \<Rightarrow> string list" where
  "cleanSegs st [] = rev st"
| "cleanSegs st (seg # segs) =
     (if seg = [] \<or> seg = ''.'' then cleanSegs st segs
      else if seg = ''..'' then cleanSegs (case st of [] \<Rightarrow> [] | x # below \<Rightarrow> below) segs
      else cleanSegs (seg # st) segs)"

definition path_Clean :: "string \<Rightarrow> string" where
  "path_Clean p = CHR ''/'' # joinSlash (cleanSegs [] (splitSlash p))"

text \<open>\<^verbatim>\<open>strings.HasSuffix\<close>, \<^verbatim>\<open>strings.HasPrefix\<close>, \<^verbatim>\<open>strings.TrimSuffix\<close> and \<^verbatim>\<open>path.Base\<close>.\<close>

definition HasSuffix :: "string \<Rightarrow> string \<Rightarrow> bool" where
  "HasSuffix s suffix =
     (length suffix \<le> length s \<and> drop (length s - length suffix) s = suffix)"

definition HasPrefix :: "string \<Rightarrow> string \<Rightarrow> bool" where
  "HasPrefix s prefix = (take (length prefix) s = prefix)"

definition TrimSuffix :: "string \<Rightarrow> string \<Rightarrow> string" where
  "TrimSuffix s suffix = (if HasSuffix s suffix then take (length s - length suffix) s else s)"

definition path_Base :: "string \<Rightarrow> string" where
  "path_Base p =
     (if p = [] then ''.''
      else
        let q = rev (dropWhile (\<lambda>c. c = CHR ''/'') (rev p));
            b = rev (takeWhile (\<lambda>c. c \<noteq> CHR ''/'') (rev q))
        in if b = [] then ''/'' else b)"

text \<open>
  \<^verbatim>\<open>serveFile\<close> of net/http decides between these answers: the 404 of a failed \<^verbatim>\<open>Open\<close>,
  a redirect (301) to the canonical path, the listing of a directory, and the content of
  a file. It redirects a path ending in \<^verbatim>\<open>/index.html\<close> before it opens anything; for a
  directory it serves the \<^verbatim>\<open>index.html\<close> inside, if there is one, and lists the directory
  otherwise. A file asked for with a trailing slash is redirected to its name, or refused
  with a 500 when the path has no name to redirect to. \<^verbatim>\<open>localRedirect\<close> keeps the query
  string.
\<close>

datatype fsOutcome =
  NotFoundPage | MovedPermanently string | NonDirectory | Listing "(string \<times> bool) list"
  | Content string

definition localRedirect :: "request \<Rightarrow> string \<Rightarrow> fsOutcome" where
  "localRedirect r newPath =
     MovedPermanently (if RawQuery r \<noteq> [] then newPath @ ''?'' @ RawQuery r else newPath)"

definition serveFile :: "fileSystem \<Rightarrow> request \<Rightarrow> string \<Rightarrow> fsOutcome" where
  "serveFile fs r name =
     (let url = URLPath r
      in if HasSuffix url ''/index.html'' then localRedirect r ''./''
         else
           case fs name of
             None \<Rightarrow> NotFoundPage
           | Some d \<Rightarrow>
               if isDir d \<and> (url = [] \<or> last url \<noteq> CHR ''/'')
                 then localRedirect r (path_Base url @ ''/'')
               else if \<not> isDir d \<and> url \<noteq> [] \<and> last url = CHR ''/''
                 then (if path_Base url = ''/'' \<or> path_Base url = ''.'' then NonDirectory
                       else localRedirect r (''../'' @ path_Base url))
               else
                 let d' = (if isDir d
                           then (case fs (TrimSuffix name ''/'' @ ''/index.html'') of
                                   None \<Rightarrow> d
                                 | Some dd \<Rightarrow> dd)
                           else d)
                 in case d' of Dir es \<Rightarrow> Listing es | File c \<Rightarrow> Content c)"

text \<open>
  Writing the answer. The listing is the \<^verbatim>\<open>pre\<close> block of \<^verbatim>\<open>dirList\<close>, one anchor per
  entry (names are taken to need no escaping; the doctype and viewport lines that newer
  Go releases print first are left out). For a file the content is written with the
  implicit 200; content type detection, range and conditional requests of
  \<^verbatim>\<open>serveContent\<close> are left out.
\<close>

definition dquote :: string where
  "dquote = [CHR 0x22]"

definition dirListBody :: "(string \<times> bool) list \<Rightarrow> string" where
  "dirListBody es =
     ''<pre>'' @ newline @
     concat (map (\<lambda>(n, d). let name = (if d then n @ ''/'' else n)
                            in ''<a href='' @ dquote @ name @ dquote @ ''>'' @ name @ ''</a>'' @ newline)
                 es) @
     ''</pre>'' @ newline"

fun writeOutcome :: "fsOutcome \<Rightarrow> responseWriter \<Rightarrow> responseWriter" where
  "writeOutcome NotFoundPage w = http_Error w ''404 page not found'' StatusNotFound"
| "writeOutcome NonDirectory w =
     http_Error w ''http: attempting to traverse a non-directory'' StatusInternalServerError"
| "writeOutcome (MovedPermanently loc) w =
     WriteHeader (Header_Set w ''Location'' loc) StatusMovedPermanently"
| "writeOutcome (Listing es) w =
     Write (Header_Set w ''Content-Type'' ''text/html; charset=utf-8'') (dirListBody es)"
| "writeOutcome (Content c) w = Write w c"

text \<open>
  \<^verbatim>\<open>fileHandler.ServeHTTP\<close>: a path without a leading slash gets one, and the file is looked
  up under the cleaned path.
\<close>

definition FileServer_ServeHTTP :: "fileSystem \<Rightarrow> request \<Rightarrow> responseWriter \<Rightarrow> responseWriter" where
  "FileServer_ServeHTTP fs r w =
     (let r' = (if HasPrefix (URLPath r) ''/'' then r else r\<lparr>URLPath := CHR ''/'' # URLPath r\<rparr>)
      in writeOutcome (serveFile fs r' (path_Clean (URLPath r'))) w)"

section \<open>main.go: the TLS listener\<close>

text \<open>
  The fields of \<^verbatim>\<open>tls.Config\<close> and \<^verbatim>\<open>http.Server\<close> that matter here. A field that the
  composite literal in \<^verbatim>\<open>main\<close> does not name has its zero value. Versions are the
  protocol numbers of crypto/tls, durations are nanoseconds. The server's \<^verbatim>\<open>ErrorLog\<close> is
  the application's error logger, which is part of the state a request runs in. This
  is the \<^verbatim>\<open>main\<close> that builds the application and serves \<^verbatim>\<open>app.routes()\<close>.
\<close>

datatype CurveID = CurveP256 | CurveP384 | CurveP521 | X25519

definition VersionTLS10 :: nat where "VersionTLS10 = 0x0301"
definition VersionTLS11 :: nat where "VersionTLS11 = 0x0302"
definition VersionTLS12 :: nat where "VersionTLS12 = 0x0303"
definition VersionTLS13 :: nat where "VersionTLS13 = 0x0304"

record tls_Config =
  CurvePreferences :: "CurveID list"
  MinVersion :: nat
  MaxVersion :: nat
  CipherSuites :: "nat list"

record http_Server =
  Addr :: string
  Handler :: handler
  TLSConfig :: tls_Config
  IdleTimeout :: int
  ReadTimeout :: int
  WriteTimeout :: int

definition Second :: int where "Second = 1000000000"
definition Minute :: int where "Minute = 60 * Second"

definition tlsConfig :: tls_Config where
  "tlsConfig =
     \<lparr>CurvePreferences = [X25519, CurveP256],
      MinVersion = 0,
      MaxVersion = VersionTLS13,
      CipherSuites = []\<rparr>"

text \<open>
  \<^verbatim>\<open>main\<close>, up to the call that serves: the results of \<^verbatim>\<open>openDB\<close> and of
  \<^verbatim>\<open>newTemplateCache\<close> are inputs; an error of either ends the program through
  \<^verbatim>\<open>errorLog.Fatal\<close>; otherwise the server is started with
  \<^verbatim>\<open>srv.ListenAndServeTLS("./tls/cert.pem", "./tls/key.pem")\<close>.
\<close>

datatype exit = Fatal string | ListenAndServeTLS http_Server string string

definition main ::
  "string \<Rightarrow> string + unit \<Rightarrow> string + (string \<rightharpoonup> template) \<Rightarrow> exit" where
  "main addr openDB newTemplateCache =
     (case openDB of
        Inl err \<Rightarrow> Fatal err
      | Inr db \<Rightarrow>
          (case newTemplateCache of
             Inl err \<Rightarrow> Fatal err
           | Inr cache \<Rightarrow>
               (let srv = \<lparr>Addr = addr,
                           Handler = routes,
                           TLSConfig = tlsConfig,
                           IdleTimeout = Minute,
                           ReadTimeout = 5 * Second,
                           WriteTimeout = 10 * Second\<rparr>
                in ListenAndServeTLS srv ''./tls/cert.pem'' ''./tls/key.pem'')))"

text \<open>
  What crypto/tls makes of a configuration: an empty \<^verbatim>\<open>CurvePreferences\<close> or a nil
  \<^verbatim>\<open>CipherSuites\<close> stands for the library's default list, and a version is offered when
  it is not below \<^verbatim>\<open>MinVersion\<close> (the library's default minimum when the field is zero)
  and not above \<^verbatim>\<open>MaxVersion\<close> (no bound when the field is zero). The library's defaults
  depend on the Go release and are parameters.
\<close>

definition curvePreferences :: "tls_Config \<Rightarrow> CurveID list \<Rightarrow> CurveID list" where
  "curvePreferences c defaultCurvePreferences =
     (if length (CurvePreferences c) = 0 then defaultCurvePreferences else CurvePreferences c)"

definition cipherSuites :: "tls_Config \<Rightarrow> nat list \<Rightarrow> nat list" where
  "cipherSuites c defaultCipherSuites =
     (if CipherSuites c = [] then defaultCipherSuites else CipherSuites c)"

definition supportedVersions :: "tls_Config \<Rightarrow> nat \<Rightarrow> nat list" where
  "supportedVersions c defaultMin =
     filter (\<lambda>v. \<not> (MinVersion c = 0 \<and> v < defaultMin) \<and>
                   \<not> (MinVersion c \<noteq> 0 \<and> v < MinVersion c) \<and>
                   \<not> (MaxVersion c \<noteq> 0 \<and> v > MaxVersion c))
       [VersionTLS13, VersionTLS12, VersionTLS11, VersionTLS10]"

text \<open>The configuration that sets nothing.\<close>

definition zeroConfig :: tls_Config where
  "zeroConfig = \<lparr>CurvePreferences = [], MinVersion = 0, MaxVersion = 0, CipherSuites = []\<rparr>"

section \<open>The middlewares that routes.go composes\<close>

text \<open>
  \<^verbatim>\<open>http.Redirect(w, r, url, code)\<close> for a URL that is an absolute path and needs no
  escaping: the Location header, a content type and a short HTML body for a GET request
  that set no content type, and the status.
\<close>

definition http_Redirect :: "responseWriter \<Rightarrow> request \<Rightarrow> string \<Rightarrow> nat \<Rightarrow> responseWriter" where
  "http_Redirect w r url code =
     (let hadCT = (header w ''Content-Type'' \<noteq> None);
          w1 = Header_Set w ''Location'' url;
          w2 = (if \<not> hadCT \<and> (Method r = ''GET'' \<or> Method r = ''HEAD'')
                then Header_Set w1 ''Content-Type'' ''text/html; charset=utf-8'' else w1);
          w3 = WriteHeader w2 code
      in if \<not> hadCT \<and> Method r = ''GET''
         then Write w3 (''<a href='' @ dquote @ url @ dquote @ ''>'' @ StatusText code @
                        ''</a>.'' @ newline @ newline)
         else w3)"

text \<open>
  Modelled from the spec: the session keys and the login path that middleware.go and
  handlers.go use (neither file is among the sources). The specification speaks of the
  authenticated user id stored in the session, of the originally requested path stored
  for the redirect after login, and of the login page, which routes.go registers at
  /user/login.
\<close>

definition authenticatedUserIDKey :: string where
  "authenticatedUserIDKey = ''authenticatedUserID''"

definition redirectPathKey :: string where
  "redirectPathKey = ''redirectPathAfterLogin''"

definition loginPage :: string where
  "loginPage = ''/user/login''"

text \<open>
  Modelled from the spec: \<^verbatim>\<open>app.recoverPanic\<close> of middleware.go, which is not among the
  sources. Specification 4.1, step 1: it catches any unhandled fault from downstream,
  logs it with a stack trace, returns a generic 500 response and closes the connection.
  A fault downstream is the field \<open>panicked\<close> of the state it returns.
\<close>

definition recoverPanic :: "handlerFn \<Rightarrow> handlerFn" where
  "recoverPanic next r s =
     (let s1 = next r s
      in case panicked s1 of
           None \<Rightarrow> s1
         | Some err \<Rightarrow>
             serverError
               (s1\<lparr>resp := Header_Set (resp s1) ''Connection'' ''close'', panicked := None\<rparr>) err)"

text \<open>
  Modelled from the spec: \<^verbatim>\<open>app.logRequest\<close> of middleware.go, which is not among the
  sources. Specification 4.1, step 2: it records method, URL and protocol of every
  request, and forwards.
\<close>

definition logRequest :: "handlerFn \<Rightarrow> handlerFn" where
  "logRequest next r s =
     next r (s\<lparr>infoLog := infoLog s @ [Method r @ '' '' @ URLPath r @ '' '' @ Proto r]\<rparr>)"

text \<open>
  Modelled from the spec: \<^verbatim>\<open>secureHeaders\<close> of middleware.go, which is not among the
  sources. Specification 4.1, step 3: it sets static response headers unconditionally,
  and forwards. The headers and their values are a parameter.
\<close>

definition secureHeaders :: "(string \<times> string) list \<Rightarrow> handlerFn \<Rightarrow> handlerFn" where
  "secureHeaders hs next r s =
     next r (s\<lparr>resp := fold (\<lambda>(k, v) w. Header_Set w k v) hs (resp s)\<rparr>)"

text \<open>
  \<^verbatim>\<open>SessionManager.LoadAndSave\<close> of the scs package, as specification 4.1, step 4 has it:
  it loads the session data for the token in the request's session cookie (an empty
  session when the cookie or the token's data is missing), puts it into the context for
  the rest of the chain, and saves the data under the token when the chain returns. A
  failure of the store is answered with the 500 of scs's default error function. The
  cookie that the middleware writes is left out.
\<close>

definition loadSession :: "world \<Rightarrow> request \<Rightarrow> (string \<rightharpoonup> any)" where
  "loadSession s r =
     (case cookie r of
        None \<Rightarrow> Map.empty
      | Some token \<Rightarrow> (case sessionStore s token of None \<Rightarrow> Map.empty | Some d \<Rightarrow> d))"

definition LoadAndSave :: "handlerFn \<Rightarrow> handlerFn" where
  "LoadAndSave next r s =
     (if storeDown s
      then s\<lparr>resp := http_Error (resp s) (StatusText StatusInternalServerError)
                        StatusInternalServerError\<rparr>
      else
        let s1 = next r (s\<lparr>session := Some (loadSession s r)\<rparr>)
        in case panicked s1 of
             Some err \<Rightarrow> s1
           | None \<Rightarrow>
               (case session s1 of
                  None \<Rightarrow> s1
                | Some d \<Rightarrow>
                    s1\<lparr>session := None,
                       sessionStore :=
                         (sessionStore s1)
                           ((case cookie r of None \<Rightarrow> newToken s1 | Some token \<Rightarrow> token) \<mapsto> d)\<rparr>))"

text \<open>
  The handler that \<^verbatim>\<open>noSurf\<close> of middleware.go builds with the nosurf package, as
  specification 4.1, step 5 has it: for a state-changing method (any but GET, HEAD,
  OPTIONS, TRACE) the token sent with the form must be the request's token; a mismatch
  is rejected with 400, nosurf's default failure handler.
\<close>

definition stateChanging :: "string \<Rightarrow> bool" where
  "stateChanging m = (m \<notin> set [''GET'', ''HEAD'', ''OPTIONS'', ''TRACE''])"

definition csrfValid :: "request \<Rightarrow> bool" where
  "csrfValid r = (csrfSubmitted r \<noteq> [] \<and> csrfSubmitted r = csrfToken r)"

definition noSurf :: "handlerFn \<Rightarrow> handlerFn" where
  "noSurf next r s =
     (if stateChanging (Method r) \<and> \<not> csrfValid r
      then s\<lparr>resp := http_Error (resp s) (StatusText StatusBadRequest) StatusBadRequest\<rparr>
      else next r s)"

text \<open>
  Modelled from the spec: \<^verbatim>\<open>app.authenticate\<close> of middleware.go, which is not among the
  sources. Specification 4.1, step 6: it looks up the authenticated user id stored in
  the session, if any, verifies that the user still exists in the store, and attaches
  the flag to the request context; when the lookup fails it clears the stale session
  key and treats the request as anonymous.
\<close>

definition authenticate :: "handlerFn \<Rightarrow> handlerFn" where
  "authenticate next r s =
     (case session s of
        None \<Rightarrow> s\<lparr>panicked := Some ''scs: no session data in context''\<rparr>
      | Some d \<Rightarrow>
          (case d authenticatedUserIDKey of
             Some (VInt uid) \<Rightarrow>
               if uid \<in> set (userIDs s)
               then next (r\<lparr>ctx := (ctx r)(isAuthenticatedContextKey \<mapsto> VBool True)\<rparr>) s
               else next r (s\<lparr>session := Some (d(authenticatedUserIDKey := None))\<rparr>)
           | _ \<Rightarrow> next r s))"

text \<open>
  Modelled from the spec: \<^verbatim>\<open>app.requireAuthentication\<close> of middleware.go, which is not
  among the sources. Specification 4.1, step 7: if the request is not authenticated it
  redirects to the login page and stores the originally requested path for the redirect
  after login; otherwise it forwards. The status of the redirect is 303 See Other.
\<close>

definition requireAuthentication :: "handlerFn \<Rightarrow> handlerFn" where
  "requireAuthentication next r s =
     (if \<not> isAuthenticated r
      then (case session s of
              None \<Rightarrow> s\<lparr>panicked := Some ''scs: no session data in context''\<rparr>
            | Some d \<Rightarrow>
                s\<lparr>resp := http_Redirect (resp s) r loginPage StatusSeeOther,
                  session := Some (d(redirectPathKey \<mapsto> VString (URLPath r)))\<rparr>)
      else next r s)"

text \<open>
  The application behind the handler term: the behaviour of each middleware tag, and as
  parameters what the sources at hand do not hold: the security headers, the handler
  methods of handlers.go, the embedded file system and the router's answer to an
  unmatched request.
\<close>

fun appMiddleware :: "(string \<times> string) list \<Rightarrow> middlewareTag \<Rightarrow> handlerFn \<Rightarrow> handlerFn" where
  "appMiddleware hs RecoverPanic = recoverPanic"
| "appMiddleware hs LogRequest = logRequest"
| "appMiddleware hs SecureHeaders = secureHeaders hs"
| "appMiddleware hs SessionLoadAndSave = LoadAndSave"
| "appMiddleware hs NoSurf = noSurf"
| "appMiddleware hs Authenticate = authenticate"
| "appMiddleware hs RequireAuthentication = requireAuthentication"

record deps =
  securityHeaders :: "(string \<times> string) list"
  handlers :: "handlerFunc \<Rightarrow> handlerFn"
  uiFS :: fileSystem
  routerUnmatched :: "handlerFn \<Rightarrow> handlerFn"

definition appImpl :: "deps \<Rightarrow> impl" where
  "appImpl D =
     \<lparr>mwSem = appMiddleware (securityHeaders D),
      hfSem = handlers D,
      fileSem = (\<lambda>r s. s\<lparr>resp := FileServer_ServeHTTP (uiFS D) r (resp s)\<rparr>),
      unmatchedSem = routerUnmatched D\<rparr>"

definition ServeHTTP :: "deps \<Rightarrow> handlerFn" where
  "ServeHTTP D = serve (appImpl D) routes"

text \<open>
  A request comes with an authenticated session when the session loaded for its cookie
  holds the id of a user in the store.
\<close>

definition validUser :: "int list \<Rightarrow> (string \<rightharpoonup> any) \<Rightarrow> bool" where
  "validUser ids d =
     (case d authenticatedUserIDKey of Some (VInt uid) \<Rightarrow> uid \<in> set ids | _ \<Rightarrow> False)"

definition authenticatedSession :: "world \<Rightarrow> request \<Rightarrow> bool" where
  "authenticatedSession s r = validUser (userIDs s) (loadSession s r)"

text \<open>The chain \<^verbatim>\<open>protected\<close> of routes.go around a handler.\<close>

definition protectedChain :: "handlerFn \<Rightarrow> handlerFn" where
  "protectedChain h = LoadAndSave (noSurf (authenticate (requireAuthentication h)))"

section \<open>Sample inputs\<close>

definition freshWorld :: world where
  "freshWorld =
     \<lparr>resp = newResponseWriter, errorLog = [], infoLog = [],
      session = Some [''flash'' \<mapsto> VString ''Snippet created''], sessionStore = Map.empty,
      storeDown = False, newToken = ''t0'', userIDs = [1], panicked = None,
      stackDump = ''goroutine 1 [running]'', clockYear = 2024\<rparr>"

definition plainRequest :: request where
  "plainRequest =
     \<lparr>Method = ''GET'', URLPath = ''/'', Proto = ''HTTP/1.1'', RawQuery = [], query = [],
      cookie = None,
      ctx = [isAuthenticatedContextKey \<mapsto> VString ''true''], csrfToken = ''tok'',
      csrfSubmitted = []\<rparr>"

definition sampleData :: templateData where
  "sampleData = \<lparr>Flash = ''hello'', CurrentYear = 2024, IsAuthenticated = False,
                  CSRFToken = ''tok''\<rparr>"

definition sampleApp :: application where
  "sampleApp =
     \<lparr>templateCache =
        [''home.tmpl'' \<mapsto> (\<lambda>d. (''<p>'' @ Flash d @ ''</p>'', None)),
         ''view.tmpl'' \<mapsto> (\<lambda>d. (''<p>'' @ Flash d, Some ''template: no such field''))]\<rparr>"

definition viewRequest :: "string \<Rightarrow> request" where
  "viewRequest v =
     plainRequest\<lparr>URLPath := ''/snippet/view'', RawQuery := ''id='' @ v, query := [(''id'', v)]\<rparr>"

text \<open>
  A file system as routes.go describes \<^verbatim>\<open>ui.Files\<close>: the stylesheet is at
  \<^verbatim>\<open>static/css/main.css\<close>.
\<close>

definition uiFiles :: fileSystem where
  "uiFiles =
     [''/'' \<mapsto> Dir [(''static'', True)],
      ''/static'' \<mapsto> Dir [(''css'', True)],
      ''/static/css'' \<mapsto> Dir [(''main.css'', False)],
      ''/static/css/main.css'' \<mapsto> File ''body { margin: 0 }'']"

definition staticRequest :: "string \<Rightarrow> request" where
  "staticRequest p = plainRequest\<lparr>URLPath := p\<rparr>"

definition logoutRequest :: request where
  "logoutRequest =
     \<lparr>Method = ''POST'', URLPath = ''/user/logout'', Proto = ''HTTP/1.1'', RawQuery = [],
      query = [], cookie = None, ctx = Map.empty, csrfToken = ''tok'', csrfSubmitted = []\<rparr>"

definition createRequest :: request where
  "createRequest =
     \<lparr>Method = ''GET'', URLPath = ''/snippet/create'', Proto = ''HTTP/1.1'', RawQuery = [],
      query = [], cookie = None, ctx = Map.empty, csrfToken = ''tok'', csrfSubmitted = []\<rparr>"

definition sampleDeps :: deps where
  "sampleDeps =
     \<lparr>securityHeaders = [(''X-Frame-Options'', ''deny'')],
      handlers = (\<lambda>f r s. s\<lparr>resp := Write (resp s) ''page''\<rparr>),
      uiFS = uiFiles,
      routerUnmatched = (\<lambda>nf. nf)\<rparr>"

section \<open>Properties\<close>

subsection \<open>The response writer and the error helpers\<close>

lemma StatusText_500: "StatusText StatusInternalServerError = ''Internal Server Error''"
  by (simp add: StatusText_def StatusInternalServerError_def statusTable_def)

lemma StatusText_404: "StatusText StatusNotFound = ''Not Found''"
  by (simp add: StatusText_def StatusNotFound_def statusTable_def)

lemma http_Error_body: "body (http_Error w msg code) = body w @ msg @ newline"
  by (simp add: http_Error_def Write_def WriteHeader_def Header_Set_def Let_def
      split: option.splits)

lemma http_Error_sent_fresh:
  "sent w = None \<Longrightarrow>
   sent (http_Error w msg code) =
     Some (code, (header w)(''Content-Type'' \<mapsto> [''text/plain; charset=utf-8''],
                           ''X-Content-Type-Options'' \<mapsto> [''nosniff'']))"
  by (simp add: http_Error_def Write_def WriteHeader_def Header_Set_def Let_def)

lemma http_Error_sent_late: "sent w = Some x \<Longrightarrow> sent (http_Error w msg code) = Some x"
  by (simp add: http_Error_def Write_def WriteHeader_def Header_Set_def Let_def)

lemma serverError_resp:
  "resp (serverError s err) = http_Error (resp s) ''Internal Server Error'' 500"
  using StatusText_500 by (simp add: serverError_def Let_def StatusInternalServerError_def)

lemma serverError_errorLog:
  "errorLog (serverError s err) = errorLog s @ [err @ newline @ stackDump s]"
  by (simp add: serverError_def Let_def)

lemma render_fails_serverError:
  "renderFails app page data \<Longrightarrow> \<exists>e. render app s status page data = serverError s e"
  by (auto simp: renderFails_def render_def split: option.splits prod.splits)

lemma sample_view_fails: "renderFails sampleApp ''view.tmpl'' sampleData"
  by (simp add: renderFails_def sampleApp_def)

lemma fresh_sent: "sent (resp freshWorld) = None"
  by (simp add: freshWorld_def newResponseWriter_def)

lemma fresh_body: "body (resp freshWorld) = []"
  by (simp add: freshWorld_def newResponseWriter_def)

text \<open>
  Claim C4. A server error reported through \<open>serverError\<close> appends exactly the generic
  status text (as a line) to the body, whatever the error; the response is the same for
  every error message and every stack trace, so neither reaches the client; the message
  and the stack trace go to the error log. On a response that has not been started the
  status sent is 500 and the body is the generic line alone. A failure of \<open>render\<close>
  (a missing template, a failed execution) is reported through \<open>serverError\<close>.
\<close>

theorem serverError_generic_500:
  "resp (serverError s err) = resp (serverError (s\<lparr>stackDump := st'\<rparr>) err') \<and>
   body (resp (serverError s err)) = body (resp s) @ ''Internal Server Error'' @ newline \<and>
   errorLog (serverError s err) = errorLog s @ [err @ newline @ stackDump s] \<and>
   (sent (resp s) = None \<and> body (resp s) = [] \<longrightarrow>
      statusCode (resp (serverError s err)) = Some 500 \<and>
      body (resp (serverError s err)) = ''Internal Server Error'' @ newline) \<and>
   (renderFails app page data \<longrightarrow>
      (\<exists>e. render app s status page data = serverError s e))"
  using render_fails_serverError [of app page data s status]
  by (simp add: serverError_resp serverError_errorLog http_Error_body http_Error_sent_fresh
      statusCode_def)

theorem serverError_generic_500_witness:
  "sent (resp freshWorld) = None \<and> body (resp freshWorld) = [] \<and>
   statusCode (resp (serverError freshWorld ''sql: connection refused'')) = Some 500 \<and>
   body (resp (serverError freshWorld ''sql: connection refused'')) =
     ''Internal Server Error'' @ newline \<and>
   renderFails sampleApp ''view.tmpl'' sampleData \<and>
   (\<exists>e. render sampleApp freshWorld 200 ''view.tmpl'' sampleData = serverError freshWorld e)"
proof -
  note t = serverError_generic_500
    [where s = freshWorld and err = "''sql: connection refused''" and app = sampleApp
       and page = "''view.tmpl''" and data = sampleData and status = 200]
  have f: "sent (resp freshWorld) = None \<and> body (resp freshWorld) = []"
    using fresh_sent fresh_body by simp
  have 1: "statusCode (resp (serverError freshWorld ''sql: connection refused'')) = Some 500 \<and>
      body (resp (serverError freshWorld ''sql: connection refused'')) =
        ''Internal Server Error'' @ newline"
    using t [THEN conjunct2, THEN conjunct2, THEN conjunct2, THEN conjunct1] f by (rule mp)
  have 2: "\<exists>e. render sampleApp freshWorld 200 ''view.tmpl'' sampleData = serverError freshWorld e"
    using t [THEN conjunct2, THEN conjunct2, THEN conjunct2, THEN conjunct2] sample_view_fails
    by (rule mp)
  from f 1 2 sample_view_fails show ?thesis by blast
qed

subsection \<open>The template data\<close>

text \<open>
  Claim C8. When the request context carries session data, the envelope holds the flash
  string popped from the session (the empty string when the session has none or holds a
  value that is not a string), the current year, the request's authentication flag and
  the request's CSRF token, and the flash key is gone from the session afterwards.
\<close>

theorem newTemplateData_envelope:
  "session s = Some d \<Longrightarrow>
   newTemplateData r s =
     Inr (\<lparr>Flash = (case d ''flash'' of Some (VString f) \<Rightarrow> f | _ \<Rightarrow> []),
           CurrentYear = clockYear s,
           IsAuthenticated = isAuthenticated r,
           CSRFToken = csrfToken r\<rparr>,
          s\<lparr>session := Some (d(''flash'' := None))\<rparr>)"
proof (cases "d ''flash''")
  case None
  assume d: "session s = Some d"
  from None have "d(''flash'' := None) = d" by auto
  with d have "s\<lparr>session := Some (d(''flash'' := None))\<rparr> = s" by simp
  with None d show ?thesis
    by (simp add: newTemplateData_def PopString_def Pop_def)
next
  case (Some v)
  assume d: "session s = Some d"
  with Some show ?thesis
    by (cases v) (simp_all add: newTemplateData_def PopString_def Pop_def)
qed

theorem newTemplateData_envelope_witness:
  "session freshWorld = Some [''flash'' \<mapsto> VString ''Snippet created''] \<and>
   map_sum id fst (newTemplateData plainRequest freshWorld) =
     Inr \<lparr>Flash = ''Snippet created'', CurrentYear = 2024,
          IsAuthenticated = isAuthenticated plainRequest, CSRFToken = ''tok''\<rparr>"
proof -
  have h: "session freshWorld = Some [''flash'' \<mapsto> VString ''Snippet created'']"
    by (simp add: freshWorld_def)
  have y: "clockYear freshWorld = 2024" by (simp add: freshWorld_def)
  have t: "csrfToken plainRequest = ''tok''" by (simp add: plainRequest_def)
  show ?thesis
    using newTemplateData_envelope [OF h, of plainRequest] h y t by simp
qed

subsection \<open>The authentication flag\<close>

text \<open>
  Claim C9. A request whose context has no value under the isAuthenticated key, or a value
  there that is not a boolean, is treated as anonymous: the check returns false. The check
  is a total function (it cannot fault), and it returns true exactly when the context
  holds the boolean true under the key.
\<close>

theorem isAuthenticated_only_explicit_true:
  "(isAuthenticated r \<longleftrightarrow> ctx r isAuthenticatedContextKey = Some (VBool True)) \<and>
   ((ctx r isAuthenticatedContextKey = None \<or>
     (\<exists>v. ctx r isAuthenticatedContextKey = Some v \<and> \<not> isBool v)) \<longrightarrow>
    \<not> isAuthenticated r)"
proof -
  have key: "isAuthenticated r \<longleftrightarrow> ctx r isAuthenticatedContextKey = Some (VBool True)"
  proof (cases "ctx r isAuthenticatedContextKey")
    case None
    then show ?thesis by (simp add: isAuthenticated_def ctx_Value_def)
  next
    case (Some v)
    then show ?thesis by (cases v) (simp_all add: isAuthenticated_def ctx_Value_def)
  qed
  have "\<not> isBool (VBool True) \<Longrightarrow> False" by simp
  with key show ?thesis by auto
qed

theorem isAuthenticated_only_explicit_true_witness:
  "ctx plainRequest isAuthenticatedContextKey = Some (VString ''true'') \<and>
   \<not> isBool (VString ''true'') \<and> \<not> isAuthenticated plainRequest"
proof -
  have c: "ctx plainRequest isAuthenticatedContextKey = Some (VString ''true'')"
    by (simp add: plainRequest_def)
  show ?thesis
    using isAuthenticated_only_explicit_true [of plainRequest] c by simp
qed

subsection \<open>Rendering\<close>

lemma render_ok:
  "templateCache app page = Some ts \<Longrightarrow> ts data = (buf, None) \<Longrightarrow>
   render app s status page data =
     s\<lparr>resp := Buffer_WriteTo buf (WriteHeader (resp s) status)\<rparr>"
  by (simp add: render_def)

lemma WriteTo_fresh:
  "sent w = None \<Longrightarrow>
   sent (Buffer_WriteTo buf (WriteHeader w status)) = Some (status, header w) \<and>
   body (Buffer_WriteTo buf (WriteHeader w status)) = body w @ buf"
  by (simp add: Buffer_WriteTo_def Write_def WriteHeader_def Let_def)

text \<open>
  Claim C10. When the page is missing from the cache or its execution returns an error,
  the response is the generic 500 of \<open>http.Error\<close> applied to the response as it was: it
  does not depend on what the template wrote into the buffer. Otherwise the template was
  found and ran to completion, and only then the status given by the caller and the whole
  buffer are written.
\<close>

theorem render_all_or_nothing:
  "(renderFails app page data \<longrightarrow>
      resp (render app s status page data) =
        http_Error (resp s) ''Internal Server Error'' 500 \<and>
      body (resp (render app s status page data)) =
        body (resp s) @ ''Internal Server Error'' @ newline \<and>
      (sent (resp s) = None \<longrightarrow> statusCode (resp (render app s status page data)) = Some 500)) \<and>
   (\<not> renderFails app page data \<longrightarrow>
      (\<exists>ts buf. templateCache app page = Some ts \<and> ts data = (buf, None) \<and>
         render app s status page data =
           s\<lparr>resp := Buffer_WriteTo buf (WriteHeader (resp s) status)\<rparr> \<and>
         (sent (resp s) = None \<longrightarrow>
            sent (resp (render app s status page data)) = Some (status, header (resp s)) \<and>
            body (resp (render app s status page data)) = body (resp s) @ buf)))"
proof (intro conjI impI)
  assume f: "renderFails app page data"
  then obtain e where e: "render app s status page data = serverError s e"
    using render_fails_serverError by blast
  show r: "resp (render app s status page data) =
        http_Error (resp s) ''Internal Server Error'' 500"
    by (simp add: e serverError_resp)
  show "body (resp (render app s status page data)) =
        body (resp s) @ ''Internal Server Error'' @ newline"
    by (simp add: r http_Error_body)
  assume "sent (resp s) = None"
  then show "statusCode (resp (render app s status page data)) = Some 500"
    by (simp add: r statusCode_def http_Error_sent_fresh)
next
  assume nf: "\<not> renderFails app page data"
  then obtain ts where ts: "templateCache app page = Some ts" and ok: "snd (ts data) = None"
    by (auto simp: renderFails_def split: option.splits)
  obtain buf where buf: "ts data = (buf, None)"
    using ok by (cases "ts data") auto
  have eq: "render app s status page data =
           s\<lparr>resp := Buffer_WriteTo buf (WriteHeader (resp s) status)\<rparr>"
    using ts buf by (rule render_ok)
  have "sent (resp s) = None \<longrightarrow>
            sent (resp (render app s status page data)) = Some (status, header (resp s)) \<and>
            body (resp (render app s status page data)) = body (resp s) @ buf"
    using WriteTo_fresh [of "resp s" buf status] by (simp add: eq)
  then have "templateCache app page = Some ts \<and> ts data = (buf, None) \<and>
         render app s status page data =
           s\<lparr>resp := Buffer_WriteTo buf (WriteHeader (resp s) status)\<rparr> \<and>
         (sent (resp s) = None \<longrightarrow>
            sent (resp (render app s status page data)) = Some (status, header (resp s)) \<and>
            body (resp (render app s status page data)) = body (resp s) @ buf)"
    using ts buf eq by simp
  then show "\<exists>ts buf. templateCache app page = Some ts \<and> ts data = (buf, None) \<and>
         render app s status page data =
           s\<lparr>resp := Buffer_WriteTo buf (WriteHeader (resp s) status)\<rparr> \<and>
         (sent (resp s) = None \<longrightarrow>
            sent (resp (render app s status page data)) = Some (status, header (resp s)) \<and>
            body (resp (render app s status page data)) = body (resp s) @ buf)"
    by (intro exI)
qed

lemma sample_home_ok: "\<not> renderFails sampleApp ''home.tmpl'' sampleData"
  by (simp add: renderFails_def sampleApp_def)

theorem render_all_or_nothing_witness:
  "renderFails sampleApp ''view.tmpl'' sampleData \<and>
   \<not> renderFails sampleApp ''home.tmpl'' sampleData \<and>
   sent (resp freshWorld) = None \<and>
   statusCode (resp (render sampleApp freshWorld 200 ''view.tmpl'' sampleData)) = Some 500 \<and>
   body (resp (render sampleApp freshWorld 200 ''view.tmpl'' sampleData)) =
     ''Internal Server Error'' @ newline \<and>
   statusCode (resp (render sampleApp freshWorld 200 ''home.tmpl'' sampleData)) = Some 200 \<and>
   body (resp (render sampleApp freshWorld 200 ''home.tmpl'' sampleData)) = ''<p>hello</p>''"
proof -
  have bad: "statusCode (resp (render sampleApp freshWorld 200 ''view.tmpl'' sampleData)) = Some 500 \<and>
     body (resp (render sampleApp freshWorld 200 ''view.tmpl'' sampleData)) =
       ''Internal Server Error'' @ newline"
  proof -
    from render_all_or_nothing [of sampleApp "''view.tmpl''" sampleData freshWorld 200]
      sample_view_fails
    have "body (resp (render sampleApp freshWorld 200 ''view.tmpl'' sampleData)) =
            body (resp freshWorld) @ ''Internal Server Error'' @ newline \<and>
          (sent (resp freshWorld) = None \<longrightarrow>
             statusCode (resp (render sampleApp freshWorld 200 ''view.tmpl'' sampleData)) =
               Some 500)"
      by blast
    then show ?thesis using fresh_sent fresh_body by simp
  qed
  have "\<exists>ts buf. templateCache sampleApp ''home.tmpl'' = Some ts \<and> ts sampleData = (buf, None) \<and>
      sent (resp (render sampleApp freshWorld 200 ''home.tmpl'' sampleData)) =
        Some (200, header (resp freshWorld)) \<and>
      body (resp (render sampleApp freshWorld 200 ''home.tmpl'' sampleData)) = buf"
    using render_all_or_nothing [of sampleApp "''home.tmpl''" sampleData freshWorld 200]
      sample_home_ok fresh_sent fresh_body by auto
  then have good: "statusCode (resp (render sampleApp freshWorld 200 ''home.tmpl'' sampleData)) = Some 200 \<and>
     body (resp (render sampleApp freshWorld 200 ''home.tmpl'' sampleData)) = ''<p>hello</p>''"
    by (auto simp: sampleApp_def sampleData_def statusCode_def)
  from bad good sample_view_fails sample_home_ok fresh_sent show ?thesis by simp
qed

subsection \<open>The snippet view\<close>

lemma parseUint_digits: "parseUint n s = Inr m \<Longrightarrow> list_all isDigit s"
  by (induction s arbitrary: n) (auto split: if_splits)

lemma Atoi_literal: "Atoi s = Inr n \<Longrightarrow> isIntegerLiteral s"
  by (cases s)
     (auto simp: Atoi_def ParseInt_def ParseUint_def isIntegerLiteral_def Let_def isDigit_def
           split: if_splits sum.splits dest: parseUint_digits)

lemma http_NotFound_body: "body (http_NotFound w) = body w @ ''404 page not found'' @ newline"
  by (simp add: http_NotFound_def http_Error_body)

lemma http_NotFound_status: "sent w = None \<Longrightarrow> statusCode (http_NotFound w) = Some 404"
  by (simp add: http_NotFound_def http_Error_sent_fresh statusCode_def StatusNotFound_def)

text \<open>
  Claim C3. When the id parameter of a snippet-view request is not numeric, is rejected by
  \<open>Atoi\<close>, or parses to an integer below 1, \<open>snippetView\<close> answers exactly as
  \<^verbatim>\<open>http.NotFound\<close> does: the 404 line is appended to the body, no snippet text is
  written, and on a response not yet started the status sent is 404.
\<close>

theorem snippetView_invalid_id_404:
  assumes "\<not> isIntegerLiteral (Values_Get (query r) ''id'') \<or>
           (\<exists>e. Atoi (Values_Get (query r) ''id'') = Inl e) \<or>
           (\<exists>n. Atoi (Values_Get (query r) ''id'') = Inr n \<and> n < 1)"
  shows "snippetView r w = http_NotFound w \<and>
         body (snippetView r w) = body w @ ''404 page not found'' @ newline \<and>
         (\<forall>n. body (snippetView r w) \<noteq>
                body w @ ''Display a specific snippet with ID %d...'' @ Itoa n) \<and>
         (sent w = None \<longrightarrow> statusCode (snippetView r w) = Some 404)"
proof -
  have nf: "snippetView r w = http_NotFound w"
  proof (cases "Atoi (Values_Get (query r) ''id'')")
    case (Inl e)
    then show ?thesis by (simp add: snippetView_def)
  next
    case (Inr n)
    with assms Atoi_literal [OF Inr] have "n < 1" by auto
    with Inr show ?thesis by (simp add: snippetView_def)
  qed
  then show ?thesis
    by (simp add: http_NotFound_body http_NotFound_status)
qed

lemma snippetView_valid:
  "Atoi (Values_Get (query r) ''id'') = Inr n \<Longrightarrow> 1 \<le> n \<Longrightarrow>
   snippetView r w = Write w (''Display a specific snippet with ID %d...'' @ Itoa n)"
  by (simp add: snippetView_def)

theorem snippetView_invalid_id_404_witness:
  "\<not> isIntegerLiteral (Values_Get (query (viewRequest ''abc'')) ''id'') \<and>
   Atoi (Values_Get (query (viewRequest ''0'')) ''id'') = Inr 0 \<and>
   sent newResponseWriter = None \<and>
   statusCode (snippetView (viewRequest ''abc'') newResponseWriter) = Some 404 \<and>
   statusCode (snippetView (viewRequest ''0'') newResponseWriter) = Some 404 \<and>
   body (snippetView (viewRequest ''0'') newResponseWriter) = ''404 page not found'' @ newline"
proof -
  have a: "\<not> isIntegerLiteral (Values_Get (query (viewRequest ''abc'')) ''id'')"
    by (simp add: viewRequest_def Values_Get_def isIntegerLiteral_def isDigit_def)
  have z: "Atoi (Values_Get (query (viewRequest ''0'')) ''id'') = Inr 0"
    by (simp add: viewRequest_def Values_Get_def Atoi_def ParseInt_def ParseUint_def
        isDigit_def digitVal_def maxUint64_def)
  have f: "sent newResponseWriter = None" "body newResponseWriter = []"
    by (simp_all add: newResponseWriter_def)
  have ha: "\<not> isIntegerLiteral (Values_Get (query (viewRequest ''abc'')) ''id'') \<or>
           (\<exists>e. Atoi (Values_Get (query (viewRequest ''abc'')) ''id'') = Inl e) \<or>
           (\<exists>n. Atoi (Values_Get (query (viewRequest ''abc'')) ''id'') = Inr n \<and> n < 1)"
    using a by (rule disjI1)
  have hz: "\<not> isIntegerLiteral (Values_Get (query (viewRequest ''0'')) ''id'') \<or>
           (\<exists>e. Atoi (Values_Get (query (viewRequest ''0'')) ''id'') = Inl e) \<or>
           (\<exists>n. Atoi (Values_Get (query (viewRequest ''0'')) ''id'') = Inr n \<and> n < 1)"
    using z by simp
  note ta = snippetView_invalid_id_404 [of "viewRequest ''abc''" newResponseWriter, OF ha]
  note tz = snippetView_invalid_id_404 [of "viewRequest ''0''" newResponseWriter, OF hz]
  have 1: "statusCode (snippetView (viewRequest ''abc'') newResponseWriter) = Some 404"
    using ta [THEN conjunct2, THEN conjunct2, THEN conjunct2] f(1) by (rule mp)
  have 2: "statusCode (snippetView (viewRequest ''0'') newResponseWriter) = Some 404"
    using tz [THEN conjunct2, THEN conjunct2, THEN conjunct2] f(1) by (rule mp)
  have 3: "body (snippetView (viewRequest ''0'') newResponseWriter) =
             ''404 page not found'' @ newline"
    using tz [THEN conjunct2, THEN conjunct1] f(2) by simp
  from a z f 1 2 3 show ?thesis by simp
qed

lemma snippetView_valid_example:
  "body (snippetView (viewRequest ''42'') newResponseWriter) =
     ''Display a specific snippet with ID %d...42'' \<and>
   statusCode (snippetView (viewRequest ''42'') newResponseWriter) = Some 200"
  by (simp add: viewRequest_def Values_Get_def Atoi_def ParseInt_def ParseUint_def
        isDigit_def digitVal_def maxUint64_def snippetView_def Itoa_def natToDec.simps
        Write_def WriteHeader_def newResponseWriter_def statusCode_def)

subsection \<open>Routing\<close>

lemma match_examples:
  "matchPattern ''/static/*filepath'' ''/static/css/main.css''"
  "matchPattern ''/static/*filepath'' ''/static/''"
  "\<not> matchPattern ''/static/*filepath'' ''/static''"
  "matchPattern ''/snippet/view/:id'' ''/snippet/view/12''"
  "\<not> matchPattern ''/snippet/view/:id'' ''/snippet/view/''"
  "\<not> matchPattern ''/snippet/view/:id'' ''/snippet/view/1/2''"
  "matchPattern ''/'' ''/''"
  "\<not> matchPattern ''/'' ''/x''"
  "\<not> matchPattern ''/'' ''''"
  "matchPattern ''/user/login'' ''/user/login''"
  "\<not> matchPattern ''/user/login'' ''/user/logout''"
  by (simp_all add: matchPattern_def)

lemma Then_foldr: "Then c h = foldr Wrap c h"
  by (simp add: Then_def foldr_conv_fold)

lemma routes_eq:
  "routes =
     Wrap RecoverPanic (Wrap LogRequest (Wrap SecureHeaders
       (Mux [(''GET'', ''/static/*filepath'', FileServer),
             (''GET'', ''/'', Wrap SessionLoadAndSave (Wrap NoSurf (Wrap Authenticate (HandlerFunc Home)))),
             (''GET'', ''/snippet/view/:id'', Wrap SessionLoadAndSave (Wrap NoSurf (Wrap Authenticate (HandlerFunc SnippetView)))),
             (''GET'', ''/user/signup'', Wrap SessionLoadAndSave (Wrap NoSurf (Wrap Authenticate (HandlerFunc UserSignup)))),
             (''POST'', ''/user/signup'', Wrap SessionLoadAndSave (Wrap NoSurf (Wrap Authenticate (HandlerFunc UserSignupPost)))),
             (''POST'', ''/user/login'', Wrap SessionLoadAndSave (Wrap NoSurf (Wrap Authenticate (HandlerFunc UserLoginPost)))),
             (''GET'', ''/user/login'', Wrap SessionLoadAndSave (Wrap NoSurf (Wrap Authenticate (HandlerFunc UserLogin)))),
             (''POST'', ''/snippet/create'', Wrap SessionLoadAndSave (Wrap NoSurf (Wrap Authenticate (Wrap RequireAuthentication (HandlerFunc SnippetCreatePost))))),
             (''GET'', ''/snippet/create'', Wrap SessionLoadAndSave (Wrap NoSurf (Wrap Authenticate (Wrap RequireAuthentication (HandlerFunc SnippetCreate))))),
             (''POST'', ''/user/logout'', Wrap SessionLoadAndSave (Wrap NoSurf (Wrap Authenticate (Wrap RequireAuthentication (HandlerFunc UserLogoutPost)))))]
            (Some NotFoundFunc))))"
  by (simp add: routes_def Let_def Then_def ThenFunc_def alice_New_def Append_def Router_Handler_def
      routerHandler_def httprouter_New_def MethodGet_def MethodPost_def)


lemma splitSlash_nonempty: "splitSlash s \<noteq> []"
  by (induction s) (auto split: list.splits)

lemma joinSlash_splitSlash: "joinSlash (splitSlash s) = s"
proof (induction s)
  case Nil
  then show ?case by simp
next
  case (Cons c cs)
  obtain seg segs where sp: "splitSlash cs = seg # segs"
    using splitSlash_nonempty [of cs] by (cases "splitSlash cs") auto
  with Cons show ?case by (cases segs) auto
qed

lemma splitSlash_inj: "splitSlash s = splitSlash t \<Longrightarrow> s = t"
  by (metis joinSlash_splitSlash)

lemma matchSegs_static: "staticSegs ps \<Longrightarrow> matchSegs ps ss \<longleftrightarrow> ps = ss"
proof (induction ps ss rule: matchSegs.induct)
  case (4 p ps s ss)
  then show ?case by (cases p) (auto simp: staticSegs_def)
qed (auto simp: staticSegs_def)

lemma matchPattern_static:
  "staticSegs (splitSlash pat) \<Longrightarrow> matchPattern pat path \<longleftrightarrow> path = pat"
  using splitSlash_inj by (auto simp: matchPattern_def matchSegs_static)

lemma static_patterns:
  "matchPattern ''/'' path \<longleftrightarrow> path = ''/''"
  "matchPattern ''/user/signup'' path \<longleftrightarrow> path = ''/user/signup''"
  "matchPattern ''/user/login'' path \<longleftrightarrow> path = ''/user/login''"
  "matchPattern ''/user/logout'' path \<longleftrightarrow> path = ''/user/logout''"
  "matchPattern ''/snippet/create'' path \<longleftrightarrow> path = ''/snippet/create''"
  by (rule matchPattern_static, simp add: staticSegs_def)+


lemma routes_table:
  "routeTable (innermost routes) =
     [(''GET'', ''/static/*filepath'', FileServer),
      (''GET'', ''/'', Wrap SessionLoadAndSave (Wrap NoSurf (Wrap Authenticate (HandlerFunc Home)))),
      (''GET'', ''/snippet/view/:id'', Wrap SessionLoadAndSave (Wrap NoSurf (Wrap Authenticate (HandlerFunc SnippetView)))),
      (''GET'', ''/user/signup'', Wrap SessionLoadAndSave (Wrap NoSurf (Wrap Authenticate (HandlerFunc UserSignup)))),
      (''POST'', ''/user/signup'', Wrap SessionLoadAndSave (Wrap NoSurf (Wrap Authenticate (HandlerFunc UserSignupPost)))),
      (''POST'', ''/user/login'', Wrap SessionLoadAndSave (Wrap NoSurf (Wrap Authenticate (HandlerFunc UserLoginPost)))),
      (''GET'', ''/user/login'', Wrap SessionLoadAndSave (Wrap NoSurf (Wrap Authenticate (HandlerFunc UserLogin)))),
      (''POST'', ''/snippet/create'', Wrap SessionLoadAndSave (Wrap NoSurf (Wrap Authenticate (Wrap RequireAuthentication (HandlerFunc SnippetCreatePost))))),
      (''GET'', ''/snippet/create'', Wrap SessionLoadAndSave (Wrap NoSurf (Wrap Authenticate (Wrap RequireAuthentication (HandlerFunc SnippetCreate))))),
      (''POST'', ''/user/logout'', Wrap SessionLoadAndSave (Wrap NoSurf (Wrap Authenticate (Wrap RequireAuthentication (HandlerFunc UserLogoutPost)))))]"
  by (simp add: routes_eq)

lemma routes_middlewares: "middlewares routes = [RecoverPanic, LogRequest, SecureHeaders]"
  by (simp add: routes_eq)

text \<open>
  Claim C5. The router's table holds exactly ten entries: the ten routes of the
  specification. The handlers of GET and POST /snippet/create and of POST /user/logout
  are wrapped by the authentication requirement; no other entry is.
\<close>

theorem routes_registered_exactly:
  "set (map (\<lambda>(m, p, h). (m, p, RequireAuthentication \<in> set (middlewares h)))
          (routeTable (innermost routes))) =
     {(''GET'', ''/'', False), (''GET'', ''/snippet/view/:id'', False),
      (''GET'', ''/snippet/create'', True), (''POST'', ''/snippet/create'', True),
      (''GET'', ''/user/signup'', False), (''POST'', ''/user/signup'', False),
      (''GET'', ''/user/login'', False), (''POST'', ''/user/login'', False),
      (''POST'', ''/user/logout'', True), (''GET'', ''/static/*filepath'', False)} \<and>
   length (routeTable (innermost routes)) = 10"
  unfolding routes_table by (simp add: insert_commute)

text \<open>
  Claim C1 as stated fails for a request for a static file: only the three standard
  middlewares stand before the file server; session, CSRF and identity middlewares are
  not part of its pipeline.
\<close>

theorem static_skips_session:
  "fst (pipeline routes ''GET'' ''/static/css/main.css'') =
     [RecoverPanic, LogRequest, SecureHeaders] \<and>
   SessionLoadAndSave \<notin> set (fst (pipeline routes ''GET'' ''/static/css/main.css'')) \<and>
   snd (pipeline routes ''GET'' ''/static/css/main.css'') = FileServer"
  unfolding pipeline_def routes_table routes_middlewares
  by (simp add: getValue_def matchPattern_def)


lemma static_shape:
  "matchPattern ''/static/*filepath'' path \<longleftrightarrow>
     (\<exists>x rest. splitSlash path = [] # ''static'' # x # rest)"
proof (cases "splitSlash path")
  case Nil
  then show ?thesis by (simp add: matchPattern_def)
next
  case a: (Cons a as)
  show ?thesis
  proof (cases as)
    case Nil
    with a show ?thesis by (simp add: matchPattern_def)
  next
    case b: (Cons b bs)
    show ?thesis
    proof (cases bs)
      case Nil
      with a b show ?thesis by (simp add: matchPattern_def)
    next
      case (Cons c cs)
      with a b show ?thesis by (auto simp: matchPattern_def)
    qed
  qed
qed

lemma view_shape:
  "matchPattern ''/snippet/view/:id'' path \<longleftrightarrow>
     (\<exists>seg. seg \<noteq> [] \<and> splitSlash path = [[], ''snippet'', ''view'', seg])"
proof (cases "splitSlash path")
  case Nil
  then show ?thesis by (simp add: matchPattern_def)
next
  case a: (Cons a as)
  show ?thesis
  proof (cases as)
    case Nil
    with a show ?thesis by (simp add: matchPattern_def)
  next
    case b: (Cons b bs)
    show ?thesis
    proof (cases bs)
      case Nil
      with a b show ?thesis by (simp add: matchPattern_def)
    next
      case c: (Cons c cs)
      show ?thesis
      proof (cases cs)
        case Nil
        with a b c show ?thesis by (simp add: matchPattern_def)
      next
        case (Cons d ds)
        with a b c show ?thesis by (cases ds) (auto simp: matchPattern_def)
      qed
    qed
  qed
qed

lemma static_excl:
  assumes "matchPattern ''/static/*filepath'' path"
  shows "\<not> matchPattern ''/snippet/view/:id'' path" "path \<noteq> ''/''"
    "path \<noteq> ''/user/signup''" "path \<noteq> ''/user/login''" "path \<noteq> ''/user/logout''"
    "path \<noteq> ''/snippet/create''"
  using assms by (auto simp: static_shape view_shape)

lemma view_excl:
  assumes "matchPattern ''/snippet/view/:id'' path"
  shows "path \<noteq> ''/''"
    "path \<noteq> ''/user/signup''" "path \<noteq> ''/user/login''" "path \<noteq> ''/user/logout''"
    "path \<noteq> ''/snippet/create''"
  using assms by (auto simp: view_shape)


lemma lookup_routes:
  "getValue (routeTable (innermost routes)) method path =
     (if method = ''GET'' \<and> matchPattern ''/static/*filepath'' path then Some FileServer
      else if method = ''GET'' \<and> path = ''/''
        then Some (foldr Wrap [SessionLoadAndSave, NoSurf, Authenticate] (HandlerFunc Home))
      else if method = ''GET'' \<and> matchPattern ''/snippet/view/:id'' path
        then Some (foldr Wrap [SessionLoadAndSave, NoSurf, Authenticate] (HandlerFunc SnippetView))
      else if method = ''GET'' \<and> path = ''/user/signup''
        then Some (foldr Wrap [SessionLoadAndSave, NoSurf, Authenticate] (HandlerFunc UserSignup))
      else if method = ''POST'' \<and> path = ''/user/signup''
        then Some (foldr Wrap [SessionLoadAndSave, NoSurf, Authenticate] (HandlerFunc UserSignupPost))
      else if method = ''POST'' \<and> path = ''/user/login''
        then Some (foldr Wrap [SessionLoadAndSave, NoSurf, Authenticate] (HandlerFunc UserLoginPost))
      else if method = ''GET'' \<and> path = ''/user/login''
        then Some (foldr Wrap [SessionLoadAndSave, NoSurf, Authenticate] (HandlerFunc UserLogin))
      else if method = ''POST'' \<and> path = ''/snippet/create''
        then Some (foldr Wrap [SessionLoadAndSave, NoSurf, Authenticate, RequireAuthentication]
                     (HandlerFunc SnippetCreatePost))
      else if method = ''GET'' \<and> path = ''/snippet/create''
        then Some (foldr Wrap [SessionLoadAndSave, NoSurf, Authenticate, RequireAuthentication]
                     (HandlerFunc SnippetCreate))
      else if method = ''POST'' \<and> path = ''/user/logout''
        then Some (foldr Wrap [SessionLoadAndSave, NoSurf, Authenticate, RequireAuthentication]
                     (HandlerFunc UserLogoutPost))
      else None)"
  unfolding routes_table getValue_def by (simp add: static_patterns)

lemma middlewares_foldr [simp]: "middlewares (foldr Wrap ms (HandlerFunc f)) = ms"
  by (induction ms) auto

lemma innermost_foldr [simp]: "innermost (foldr Wrap ms (HandlerFunc f)) = HandlerFunc f"
  by (induction ms) auto

lemma routeIn_dynamic:
  "routeIn dynamicRoutes method path \<longleftrightarrow>
     (method = ''GET'' \<and> path = ''/'') \<or>
     (method = ''GET'' \<and> matchPattern ''/snippet/view/:id'' path) \<or>
     (method = ''GET'' \<and> path = ''/snippet/create'') \<or>
     (method = ''POST'' \<and> path = ''/snippet/create'') \<or>
     (method = ''GET'' \<and> path = ''/user/signup'') \<or>
     (method = ''POST'' \<and> path = ''/user/signup'') \<or>
     (method = ''GET'' \<and> path = ''/user/login'') \<or>
     (method = ''POST'' \<and> path = ''/user/login'') \<or>
     (method = ''POST'' \<and> path = ''/user/logout'')"
  unfolding routeIn_def dynamicRoutes_def by (simp add: static_patterns eq_commute [of _ "method"])

lemma routeIn_protected:
  "routeIn protectedRoutes method path \<longleftrightarrow>
     (method = ''POST'' \<and> path = ''/snippet/create'') \<or>
     (method = ''GET'' \<and> path = ''/snippet/create'') \<or>
     (method = ''POST'' \<and> path = ''/user/logout'')"
  unfolding routeIn_def protectedRoutes_def by (simp add: static_patterns eq_commute [of _ "method"])


lemma pipeline_order:
  "fst (pipeline routes method path) =
     [RecoverPanic, LogRequest, SecureHeaders] @
     (if routeIn dynamicRoutes method path
      then [SessionLoadAndSave, NoSurf, Authenticate] @
           (if routeIn protectedRoutes method path then [RequireAuthentication] else [])
      else [])"
proof (cases "matchPattern ''/static/*filepath'' path")
  case True
  note ex = static_excl [OF True]
  from True ex show ?thesis
    unfolding pipeline_def lookup_routes routes_middlewares routeIn_dynamic routeIn_protected
    by simp
next
  case nostatic: False
  show ?thesis
  proof (cases "matchPattern ''/snippet/view/:id'' path")
    case True
    note ex = view_excl [OF True]
    from True nostatic ex show ?thesis
      unfolding pipeline_def lookup_routes routes_middlewares routeIn_dynamic routeIn_protected
      by simp
  next
    case False
    with nostatic show ?thesis
      unfolding pipeline_def lookup_routes routes_middlewares routeIn_dynamic routeIn_protected
      by auto
  qed
qed


lemma serve_foldr: "serve I (foldr Wrap ms h) = foldr (mwSem I) ms (serve I h)"
  by (induction ms) auto

lemma wrapped_decompose: "h = foldr Wrap (middlewares h) (innermost h)"
  by (induction h) auto

lemma serve_wrapped: "serve I h = foldr (mwSem I) (middlewares h) (serve I (innermost h))"
  using serve_foldr [of I "middlewares h" "innermost h"] wrapped_decompose [of h] by simp

lemma getValue_map:
  "getValue (map (map_prod id (map_prod id f)) tbl) method path =
     map_option f (getValue tbl method path)"
  by (induction tbl) (auto simp: getValue_def)

lemma serve_Mux:
  "serve I (Mux tbl (Some nf)) r s =
     (case getValue tbl (Method r) (URLPath r) of
        Some h \<Rightarrow> serve I h r s
      | None \<Rightarrow> unmatchedSem I (serve I nf) r s)"
  by (simp add: Router_ServeHTTP_def getValue_map split: option.splits)

lemma serve_router:
  "serve I (innermost routes) r s =
     (case getValue (routeTable (innermost routes)) (Method r) (URLPath r) of
        Some h \<Rightarrow> foldr (mwSem I) (middlewares h) (serve I (innermost h)) r s
      | None \<Rightarrow> unmatchedSem I (\<lambda>r s. notFound s) r s)"
proof -
  define T where "T = routeTable (innermost routes)"
  have ir: "innermost routes = Mux T (Some NotFoundFunc)"
    unfolding T_def by (simp add: routes_eq)
  have "serve I (Mux T (Some NotFoundFunc)) r s =
        (case getValue T (Method r) (URLPath r) of
           Some h \<Rightarrow> serve I h r s
         | None \<Rightarrow> unmatchedSem I (serve I NotFoundFunc) r s)"
    by (rule serve_Mux)
  also have "\<dots> =
        (case getValue T (Method r) (URLPath r) of
           Some h \<Rightarrow> foldr (mwSem I) (middlewares h) (serve I (innermost h)) r s
         | None \<Rightarrow> unmatchedSem I (\<lambda>r s. notFound s) r s)"
  proof (cases "getValue T (Method r) (URLPath r)")
    case None
    then show ?thesis by simp
  next
    case (Some h)
    then show ?thesis using serve_wrapped [of I h] by simp
  qed
  finally have "serve I (Mux T (Some NotFoundFunc)) r s =
        (case getValue T (Method r) (URLPath r) of
           Some h \<Rightarrow> foldr (mwSem I) (middlewares h) (serve I (innermost h)) r s
         | None \<Rightarrow> unmatchedSem I (\<lambda>r s. notFound s) r s)" .
  then have "serve I (innermost routes) r s =
        (case getValue T (Method r) (URLPath r) of
           Some h \<Rightarrow> foldr (mwSem I) (middlewares h) (serve I (innermost h)) r s
         | None \<Rightarrow> unmatchedSem I (\<lambda>r s. notFound s) r s)"
    by (simp only: ir)
  then show ?thesis by (simp only: T_def)
qed

text \<open>
  Claim C1, amended. Whatever the middlewares and handlers do, the handler of routes() is
  panic recovery around request logging around security headers around the router, and
  the router hands a matched request to its entry's middlewares in their order. For a
  request that matches one of the nine application routes these are session load/save,
  CSRF validation and identity propagation, followed on the three protected routes only
  by the authentication requirement; for every other request (a static file, no match)
  there are none beyond the three standard ones.
\<close>

theorem middleware_order:
  "serve I routes =
     mwSem I RecoverPanic (mwSem I LogRequest (mwSem I SecureHeaders
       (\<lambda>r s. case getValue (routeTable (innermost routes)) (Method r) (URLPath r) of
               Some h \<Rightarrow> foldr (mwSem I) (middlewares h) (serve I (innermost h)) r s
             | None \<Rightarrow> unmatchedSem I (\<lambda>r s. notFound s) r s))) \<and>
   fst (pipeline routes method path) =
     [RecoverPanic, LogRequest, SecureHeaders] @
     (if routeIn dynamicRoutes method path
      then [SessionLoadAndSave, NoSurf, Authenticate] @
           (if routeIn protectedRoutes method path then [RequireAuthentication] else [])
      else [])"
proof
  have "serve I (innermost routes) =
      (\<lambda>r s. case getValue (routeTable (innermost routes)) (Method r) (URLPath r) of
               Some h \<Rightarrow> foldr (mwSem I) (middlewares h) (serve I (innermost h)) r s
             | None \<Rightarrow> unmatchedSem I (\<lambda>r s. notFound s) r s)"
    by (intro ext) (rule serve_router)
  moreover have "serve I routes =
     mwSem I RecoverPanic (mwSem I LogRequest (mwSem I SecureHeaders (serve I (innermost routes))))"
    using serve_wrapped [of I routes] by (simp add: routes_middlewares)
  ultimately show "serve I routes =
     mwSem I RecoverPanic (mwSem I LogRequest (mwSem I SecureHeaders
       (\<lambda>r s. case getValue (routeTable (innermost routes)) (Method r) (URLPath r) of
               Some h \<Rightarrow> foldr (mwSem I) (middlewares h) (serve I (innermost h)) r s
             | None \<Rightarrow> unmatchedSem I (\<lambda>r s. notFound s) r s)))"
    by simp
next
  show "fst (pipeline routes method path) =
     [RecoverPanic, LogRequest, SecureHeaders] @
     (if routeIn dynamicRoutes method path
      then [SessionLoadAndSave, NoSurf, Authenticate] @
           (if routeIn protectedRoutes method path then [RequireAuthentication] else [])
      else [])"
    by (rule pipeline_order)
qed

subsection \<open>Static files\<close>

lemma clean_examples:
  "path_Clean ''/static/css/main.css'' = ''/static/css/main.css''"
  "path_Clean ''/static/css/'' = ''/static/css''"
  "path_Clean ''/static/../x'' = ''/x''"
  "path_Clean ''/static//css/./main.css'' = ''/static/css/main.css''"
  "path_Clean ''/../..'' = ''/''"
  "path_Clean ''/'' = ''/''"
  by (simp_all add: path_Clean_def)

lemma base_examples:
  "path_Base ''/static/css'' = ''css''"
  "path_Base ''/static/css/'' = ''css''"
  "path_Base ''/'' = ''/''"
  by (simp_all add: path_Base_def)

lemma serve_examples:
  "serveFile uiFiles (staticRequest ''/static/css/'') ''/static/css'' = Listing [(''main.css'', False)]"
  "serveFile uiFiles (staticRequest ''/static/css'') ''/static/css'' = MovedPermanently ''css/''"
  "serveFile uiFiles (staticRequest ''/static/css/main.css'') ''/static/css/main.css'' = Content ''body { margin: 0 }''"
  "serveFile uiFiles (staticRequest ''/static/css/main.css/'') ''/static/css/main.css'' = MovedPermanently ''../main.css''"
  "serveFile uiFiles (staticRequest ''/static/css/nope.css'') ''/static/css/nope.css'' = NotFoundPage"
  "serveFile uiFiles (staticRequest ''/static/css/index.html'') ''/static/css/index.html'' = MovedPermanently ''./''"
  by (simp_all add: serveFile_def uiFiles_def staticRequest_def plainRequest_def HasSuffix_def
      localRedirect_def path_Base_def TrimSuffix_def Let_def)


lemma static_prefix: "matchPattern ''/static/*filepath'' p \<Longrightarrow> HasPrefix p ''/''"
proof (cases p)
  case Nil
  assume "matchPattern ''/static/*filepath'' p"
  with Nil show ?thesis by (simp add: static_shape)
next
  case (Cons c cs)
  assume "matchPattern ''/static/*filepath'' p"
  with Cons show ?thesis
    by (auto simp: static_shape HasPrefix_def split: if_splits list.splits)
qed

lemma FileServer_rooted:
  "HasPrefix (URLPath r) ''/'' \<Longrightarrow>
   FileServer_ServeHTTP fs r w = writeOutcome (serveFile fs r (path_Clean (URLPath r))) w"
  by (simp add: FileServer_ServeHTTP_def)

lemma serveFile_missing:
  "\<not> HasSuffix (URLPath r) ''/index.html'' \<Longrightarrow> fs name = None \<Longrightarrow>
   serveFile fs r name = NotFoundPage"
  by (simp add: serveFile_def)

lemma serveFile_listing:
  "serveFile fs r name = Listing es \<Longrightarrow>
   (\<exists>d. fs name = Some d \<and> isDir d) \<and> URLPath r \<noteq> [] \<and> last (URLPath r) = CHR ''/'' \<and>
   (fs (TrimSuffix name ''/'' @ ''/index.html'') = None \<or>
    fs (TrimSuffix name ''/'' @ ''/index.html'') = Some (Dir es))"
  by (auto simp: serveFile_def localRedirect_def Let_def
      split: if_splits option.splits fsnode.splits)

text \<open>
  Claim C6, amended. A request under /static/ whose path does not end in /index.html and
  whose cleaned path names nothing in the file system is answered exactly as
  \<^verbatim>\<open>http.NotFound\<close> answers (404 on a response not yet started). A directory listing is
  returned only for a path that ends in a slash and names an existing directory.
\<close>

theorem static_missing_file_404:
  "(matchPattern ''/static/*filepath'' (URLPath r) \<and>
    \<not> HasSuffix (URLPath r) ''/index.html'' \<and>
    fs (path_Clean (URLPath r)) = None \<longrightarrow>
      FileServer_ServeHTTP fs r w = http_NotFound w \<and>
      body (FileServer_ServeHTTP fs r w) = body w @ ''404 page not found'' @ newline \<and>
      (sent w = None \<longrightarrow> statusCode (FileServer_ServeHTTP fs r w) = Some 404)) \<and>
   (matchPattern ''/static/*filepath'' (URLPath r) \<and>
    serveFile fs r (path_Clean (URLPath r)) = Listing es \<longrightarrow>
      (\<exists>d. fs (path_Clean (URLPath r)) = Some d \<and> isDir d) \<and>
      last (URLPath r) = CHR ''/'')"
proof (intro conjI impI)
  assume h: "matchPattern ''/static/*filepath'' (URLPath r) \<and>
    \<not> HasSuffix (URLPath r) ''/index.html'' \<and> fs (path_Clean (URLPath r)) = None"
  then have "HasPrefix (URLPath r) ''/''" using static_prefix by blast
  then have "FileServer_ServeHTTP fs r w =
      writeOutcome (serveFile fs r (path_Clean (URLPath r))) w"
    by (rule FileServer_rooted)
  also have "serveFile fs r (path_Clean (URLPath r)) = NotFoundPage"
    using h serveFile_missing by blast
  finally show e: "FileServer_ServeHTTP fs r w = http_NotFound w"
    by (simp add: http_NotFound_def)
  show "body (FileServer_ServeHTTP fs r w) = body w @ ''404 page not found'' @ newline"
    unfolding e by (rule http_NotFound_body)
  assume "sent w = None"
  then show "statusCode (FileServer_ServeHTTP fs r w) = Some 404"
    unfolding e by (rule http_NotFound_status)
next
  assume h: "matchPattern ''/static/*filepath'' (URLPath r) \<and>
    serveFile fs r (path_Clean (URLPath r)) = Listing es"
  with serveFile_listing [of fs r "path_Clean (URLPath r)" es]
  show "\<exists>d. fs (path_Clean (URLPath r)) = Some d \<and> isDir d"
    and "last (URLPath r) = CHR ''/''"
    by blast+
qed

lemma ui_listing:
  "serveFile uiFiles (staticRequest ''/static/css/'') (path_Clean ''/static/css/'') =
     Listing [(''main.css'', False)]"
  by (simp add: serveFile_def uiFiles_def staticRequest_def plainRequest_def HasSuffix_def
      localRedirect_def path_Base_def TrimSuffix_def Let_def path_Clean_def)

text \<open>
  Claim C6 as stated fails twice. GET /static/css/ reaches the file server and is
  answered 200 with the listing of the directory; GET /static/css/index.html names no
  file and is answered with the redirect 301, not with 404.
\<close>

theorem static_directory_is_listed:
  "getValue (routeTable (innermost routes)) ''GET'' ''/static/css/'' = Some FileServer \<and>
   statusCode (FileServer_ServeHTTP uiFiles (staticRequest ''/static/css/'') newResponseWriter) =
     Some 200 \<and>
   body (FileServer_ServeHTTP uiFiles (staticRequest ''/static/css/'') newResponseWriter) =
     dirListBody [(''main.css'', False)] \<and>
   getValue (routeTable (innermost routes)) ''GET'' ''/static/css/index.html'' = Some FileServer \<and>
   uiFiles (path_Clean ''/static/css/index.html'') = None \<and>
   statusCode (FileServer_ServeHTTP uiFiles (staticRequest ''/static/css/index.html'')
     newResponseWriter) = Some 301"
proof -
  have 1: "getValue (routeTable (innermost routes)) ''GET'' ''/static/css/'' = Some FileServer"
    unfolding lookup_routes by (simp add: matchPattern_def)
  have 2: "getValue (routeTable (innermost routes)) ''GET'' ''/static/css/index.html'' =
      Some FileServer"
    unfolding lookup_routes by (simp add: matchPattern_def)
  have u: "URLPath (staticRequest p) = p" for p
    by (simp add: staticRequest_def)
  have l: "FileServer_ServeHTTP uiFiles (staticRequest ''/static/css/'') newResponseWriter =
      writeOutcome (Listing [(''main.css'', False)]) newResponseWriter"
    using ui_listing by (simp add: FileServer_ServeHTTP_def u HasPrefix_def)
  have 3: "statusCode (FileServer_ServeHTTP uiFiles (staticRequest ''/static/css/'')
      newResponseWriter) = Some 200"
    unfolding l
    by (simp add: statusCode_def Write_def WriteHeader_def Header_Set_def newResponseWriter_def)
  have 4: "body (FileServer_ServeHTTP uiFiles (staticRequest ''/static/css/'') newResponseWriter) =
     dirListBody [(''main.css'', False)]"
    unfolding l
    by (simp add: Write_def WriteHeader_def Header_Set_def newResponseWriter_def)
  have 5: "uiFiles (path_Clean ''/static/css/index.html'') = None"
    by (simp add: path_Clean_def uiFiles_def)
  have "serveFile uiFiles (staticRequest ''/static/css/index.html'')
      (path_Clean ''/static/css/index.html'') = MovedPermanently ''./''"
    by (simp add: serveFile_def staticRequest_def plainRequest_def HasSuffix_def
        localRedirect_def)
  then have 6: "statusCode (FileServer_ServeHTTP uiFiles (staticRequest ''/static/css/index.html'')
     newResponseWriter) = Some 301"
    by (simp add: FileServer_ServeHTTP_def u HasPrefix_def statusCode_def WriteHeader_def
        Header_Set_def newResponseWriter_def StatusMovedPermanently_def)
  from 1 2 3 4 5 6 show ?thesis by simp
qed


theorem static_missing_file_404_witness:
  "matchPattern ''/static/*filepath'' (URLPath (staticRequest ''/static/css/nope.css'')) \<and>
   \<not> HasSuffix (URLPath (staticRequest ''/static/css/nope.css'')) ''/index.html'' \<and>
   uiFiles (path_Clean (URLPath (staticRequest ''/static/css/nope.css''))) = None \<and>
   sent newResponseWriter = None \<and>
   statusCode (FileServer_ServeHTTP uiFiles (staticRequest ''/static/css/nope.css'')
     newResponseWriter) = Some 404 \<and>
   matchPattern ''/static/*filepath'' (URLPath (staticRequest ''/static/css/'')) \<and>
   serveFile uiFiles (staticRequest ''/static/css/'')
     (path_Clean (URLPath (staticRequest ''/static/css/''))) = Listing [(''main.css'', False)] \<and>
   (\<exists>d. uiFiles (path_Clean (URLPath (staticRequest ''/static/css/''))) = Some d \<and> isDir d)"
proof -
  have u: "URLPath (staticRequest p) = p" for p
    by (simp add: staticRequest_def)
  have a: "matchPattern ''/static/*filepath'' (URLPath (staticRequest ''/static/css/nope.css'')) \<and>
      \<not> HasSuffix (URLPath (staticRequest ''/static/css/nope.css'')) ''/index.html'' \<and>
      uiFiles (path_Clean (URLPath (staticRequest ''/static/css/nope.css''))) = None"
    by (simp add: u matchPattern_def HasSuffix_def path_Clean_def uiFiles_def)
  have f: "sent newResponseWriter = None"
    by (simp add: newResponseWriter_def)
  have b: "matchPattern ''/static/*filepath'' (URLPath (staticRequest ''/static/css/'')) \<and>
      serveFile uiFiles (staticRequest ''/static/css/'')
        (path_Clean (URLPath (staticRequest ''/static/css/''))) = Listing [(''main.css'', False)]"
    using ui_listing by (simp add: u matchPattern_def)
  note t1 = static_missing_file_404
    [of "staticRequest ''/static/css/nope.css''" uiFiles newResponseWriter,
      THEN conjunct1, THEN mp, OF a]
  have 1: "statusCode (FileServer_ServeHTTP uiFiles (staticRequest ''/static/css/nope.css'')
     newResponseWriter) = Some 404"
    using t1 [THEN conjunct2, THEN conjunct2] f by (rule mp)
  note t2 = static_missing_file_404
    [of "staticRequest ''/static/css/''" uiFiles _ "[(''main.css'', False)]",
      THEN conjunct2, THEN mp, OF b]
  have 2: "\<exists>d. uiFiles (path_Clean (URLPath (staticRequest ''/static/css/''))) = Some d \<and> isDir d"
    using t2 by (rule conjunct1)
  from a f 1 b 2 show ?thesis by blast
qed

subsection \<open>The TLS listener\<close>

text \<open>
  Claim C7, amended. When start-up succeeds the server is started by ListenAndServeTLS with
  the certificate ./tls/cert.pem and the key ./tls/key.pem, under a configuration that
  restricts the curves to X25519 and P-256. The configuration sets no cipher suites and
  no minimum version: the cipher suites are the library's defaults, and the versions
  offered are those of a configuration that sets nothing (the maximum TLS 1.3 excludes
  none).
\<close>

theorem tls_listener:
  "main addr (Inr db) (Inr cache) =
     ListenAndServeTLS
       \<lparr>Addr = addr, Handler = routes, TLSConfig = tlsConfig, IdleTimeout = Minute,
        ReadTimeout = 5 * Second, WriteTimeout = 10 * Second\<rparr>
       ''./tls/cert.pem'' ''./tls/key.pem'' \<and>
   curvePreferences tlsConfig defaultCurves = [X25519, CurveP256] \<and>
   cipherSuites tlsConfig defaultSuites = defaultSuites \<and>
   supportedVersions tlsConfig defaultMin = supportedVersions zeroConfig defaultMin"
  by (simp add: main_def tlsConfig_def curvePreferences_def cipherSuites_def
      supportedVersions_def zeroConfig_def VersionTLS13_def VersionTLS12_def VersionTLS11_def
      VersionTLS10_def)

text \<open>
  Claim C7 as stated fails on the cipher and version part: the configuration names no
  cipher suite and no minimum version. Under library defaults that still hold the
  3DES and RC4 suites and TLS 1.0 as the minimum, these all pass the configuration.
\<close>

theorem tls_config_leaves_ciphers_and_minimum_open:
  "CipherSuites tlsConfig = [] \<and> MinVersion tlsConfig = 0 \<and>
   cipherSuites tlsConfig [0x000a, 0x0005] = [0x000a, 0x0005] \<and>
   supportedVersions tlsConfig VersionTLS10 =
     [VersionTLS13, VersionTLS12, VersionTLS11, VersionTLS10]"
  by (simp add: tlsConfig_def cipherSuites_def supportedVersions_def VersionTLS13_def
      VersionTLS12_def VersionTLS11_def VersionTLS10_def)

subsection \<open>Protected routes\<close>

lemma requireAuthentication_blocks:
  "\<not> isAuthenticated r \<Longrightarrow> requireAuthentication h r s = requireAuthentication h' r s"
  by (simp add: requireAuthentication_def)

lemma authenticate_anonymous:
  assumes "\<not> isAuthenticated r" "session s = Some d"
    and "\<not> validUser (userIDs s) d"
  shows "authenticate (requireAuthentication h) r s = authenticate (requireAuthentication h') r s"
  using assms requireAuthentication_blocks [of r h _ h']
  by (auto simp: authenticate_def validUser_def split: option.splits any.splits)


lemma loadSession_cong:
  "sessionStore s' = sessionStore s \<Longrightarrow> loadSession s' r = loadSession s r"
  by (simp add: loadSession_def cong: option.case_cong)

lemma requireAuthentication_anonymous:
  "\<not> isAuthenticated r \<Longrightarrow> session s = Some d \<Longrightarrow>
   requireAuthentication h r s =
     s\<lparr>resp := http_Redirect (resp s) r loginPage StatusSeeOther,
       session := Some (d(redirectPathKey \<mapsto> VString (URLPath r)))\<rparr>"
  by (simp add: requireAuthentication_def)

lemma authenticate_anonymous_resp:
  assumes "\<not> isAuthenticated r" "session s = Some d"
    and "\<not> validUser (userIDs s) d"
  shows "resp (authenticate (requireAuthentication h) r s) =
           http_Redirect (resp s) r loginPage StatusSeeOther \<and>
         panicked (authenticate (requireAuthentication h) r s) = panicked s \<and>
         (\<exists>d'. session (authenticate (requireAuthentication h) r s) = Some d' \<and>
               d' redirectPathKey = Some (VString (URLPath r)))"
  using assms
  by (auto simp: authenticate_def requireAuthentication_def validUser_def
      split: option.splits any.splits)

lemma protectedChain_blocks:
  assumes "\<not> isAuthenticated r" "\<not> authenticatedSession s r"
  shows "protectedChain h r s = protectedChain h' r s"
proof -
  let ?s = "s\<lparr>session := Some (loadSession s r)\<rparr>"
  have e: "authenticate (requireAuthentication h) r ?s = authenticate (requireAuthentication h') r ?s"
    using assms by (intro authenticate_anonymous) (simp_all add: authenticatedSession_def)
  show ?thesis
    unfolding protectedChain_def LoadAndSave_def noSurf_def Let_def by (simp only: e)
qed

lemma protectedChain_redirects:
  assumes "\<not> isAuthenticated r" "\<not> authenticatedSession s r"
    and "\<not> storeDown s" "\<not> (stateChanging (Method r) \<and> \<not> csrfValid r)"
  shows "resp (protectedChain h r s) = http_Redirect (resp s) r loginPage StatusSeeOther \<and>
         panicked (protectedChain h r s) = panicked s"
proof -
  let ?s = "s\<lparr>session := Some (loadSession s r)\<rparr>"
  have a: "resp (authenticate (requireAuthentication h) r ?s) =
           http_Redirect (resp ?s) r loginPage StatusSeeOther \<and>
         panicked (authenticate (requireAuthentication h) r ?s) = panicked ?s \<and>
         (\<exists>d'. session (authenticate (requireAuthentication h) r ?s) = Some d' \<and>
               d' redirectPathKey = Some (VString (URLPath r)))"
    using assms(1,2) by (intro authenticate_anonymous_resp) (simp_all add: authenticatedSession_def)
  from assms(3,4) have
    "protectedChain h r s =
       (let s1 = authenticate (requireAuthentication h) r ?s
        in case panicked s1 of
             Some err \<Rightarrow> s1
           | None \<Rightarrow>
               (case session s1 of
                  None \<Rightarrow> s1
                | Some d \<Rightarrow>
                    s1\<lparr>session := None,
                       sessionStore :=
                         (sessionStore s1)
                           ((case cookie r of None \<Rightarrow> newToken s1 | Some token \<Rightarrow> token) \<mapsto> d)\<rparr>))"
    by (auto simp: protectedChain_def LoadAndSave_def noSurf_def Let_def)
  with a show ?thesis
    by (auto simp: Let_def split: option.splits)
qed

lemma protectedChain_csrf_rejects:
  assumes "\<not> storeDown s" "stateChanging (Method r)" "\<not> csrfValid r"
  shows "resp (protectedChain h r s) = http_Error (resp s) ''Bad Request'' 400 \<and>
         panicked (protectedChain h r s) = panicked s"
proof -
  have "StatusText StatusBadRequest = ''Bad Request''"
    by (simp add: StatusText_def StatusBadRequest_def statusTable_def)
  with assms show ?thesis
    by (simp add: protectedChain_def LoadAndSave_def noSurf_def Let_def StatusBadRequest_def
        split: option.splits)
qed

lemma recoverPanic_generic_500:
  "panicked (h r s) = Some e \<Longrightarrow>
   resp (recoverPanic h r s) =
     http_Error (Header_Set (resp (h r s)) ''Connection'' ''close'') ''Internal Server Error'' 500 \<and>
   panicked (recoverPanic h r s) = None \<and>
   errorLog (recoverPanic h r s) = errorLog (h r s) @ [e @ newline @ stackDump (h r s)]"
proof -
  have p: "panicked (serverError t x) = panicked t" for t x
    by (simp add: serverError_def Let_def)
  assume "panicked (h r s) = Some e"
  then show ?thesis
    by (simp add: recoverPanic_def Let_def serverError_resp serverError_errorLog p)
qed

lemma standard_chain:
  "recoverPanic (logRequest (secureHeaders hs h)) r s =
     (let s1 = h r (s\<lparr>infoLog := infoLog s @ [Method r @ '' '' @ URLPath r @ '' '' @ Proto r],
                      resp := fold (\<lambda>(k, v) w. Header_Set w k v) hs (resp s)\<rparr>)
      in case panicked s1 of
           None \<Rightarrow> s1
         | Some err \<Rightarrow>
             serverError
               (s1\<lparr>resp := Header_Set (resp s1) ''Connection'' ''close'', panicked := None\<rparr>) err)"
  by (simp add: recoverPanic_def logRequest_def secureHeaders_def Let_def)

lemma fold_Header_Set_sent: "sent (fold (\<lambda>(k, v) w. Header_Set w k v) hs w) = sent w"
  by (induction hs arbitrary: w) (auto simp: Header_Set_def)

lemma ServeHTTP_standard:
  "ServeHTTP D = recoverPanic (logRequest (secureHeaders (securityHeaders D)
                   (serve (appImpl D) (innermost routes))))"
  using serve_wrapped [of "appImpl D" routes]
  by (simp add: ServeHTTP_def routes_middlewares appImpl_def)

lemma protected_lookup:
  assumes "routeIn protectedRoutes (Method r) (URLPath r)"
  shows "\<exists>f. getValue (routeTable (innermost routes)) (Method r) (URLPath r) =
      Some (foldr Wrap [SessionLoadAndSave, NoSurf, Authenticate, RequireAuthentication]
              (HandlerFunc f))"
  using assms unfolding routeIn_protected lookup_routes by (auto simp: matchPattern_def)

lemma router_protected:
  assumes "getValue (routeTable (innermost routes)) (Method r) (URLPath r) =
      Some (foldr Wrap [SessionLoadAndSave, NoSurf, Authenticate, RequireAuthentication]
              (HandlerFunc f))"
  shows "serve (appImpl D) (innermost routes) r s = protectedChain (handlers D f) r s"
  using assms unfolding serve_router by (simp add: appImpl_def protectedChain_def)

lemma http_Redirect_sent:
  "sent w = None \<Longrightarrow>
   \<exists>hs. sent (http_Redirect w r url code) = Some (code, hs) \<and> hs ''Location'' = Some [url]"
  by (simp add: http_Redirect_def Let_def Write_def WriteHeader_def Header_Set_def)

lemma ServeHTTP_protected:
  assumes "getValue (routeTable (innermost routes)) (Method r) (URLPath r) =
      Some (foldr Wrap [SessionLoadAndSave, NoSurf, Authenticate, RequireAuthentication]
              (HandlerFunc f))"
  shows "ServeHTTP D r s =
     (let s1 = protectedChain (handlers D f) r
                 (s\<lparr>infoLog := infoLog s @ [Method r @ '' '' @ URLPath r @ '' '' @ Proto r],
                    resp := fold (\<lambda>(k, v) w. Header_Set w k v) (securityHeaders D) (resp s)\<rparr>)
      in case panicked s1 of
           None \<Rightarrow> s1
         | Some err \<Rightarrow>
             serverError
               (s1\<lparr>resp := Header_Set (resp s1) ''Connection'' ''close'', panicked := None\<rparr>) err)"
  unfolding ServeHTTP_standard standard_chain router_protected [OF assms] ..

text \<open>
  Claim C2, amended. For a request to a protected route that comes without the
  authentication flag and without an authenticated session, the route handler is never
  reached: the outcome is the same whatever the handlers are. When the session store
  works and the request passes CSRF validation (always, for GET), the response is the
  redirect 303 to /user/login.
\<close>

theorem protected_route_requires_authentication:
  assumes "routeIn protectedRoutes (Method r) (URLPath r)"
    and "\<not> isAuthenticated r" and "\<not> authenticatedSession s r"
  shows "ServeHTTP (D\<lparr>handlers := H\<rparr>) r s = ServeHTTP D r s \<and>
         (\<not> storeDown s \<and> \<not> (stateChanging (Method r) \<and> \<not> csrfValid r) \<and>
          panicked s = None \<and> sent (resp s) = None \<longrightarrow>
            (\<exists>hs. sent (resp (ServeHTTP D r s)) = Some (StatusSeeOther, hs) \<and>
                  hs ''Location'' = Some [loginPage]))"
proof
  from assms(1) obtain f where
    f: "getValue (routeTable (innermost routes)) (Method r) (URLPath r) =
      Some (foldr Wrap [SessionLoadAndSave, NoSurf, Authenticate, RequireAuthentication]
              (HandlerFunc f))"
    using protected_lookup by blast
  let ?s0 = "s\<lparr>infoLog := infoLog s @ [Method r @ '' '' @ URLPath r @ '' '' @ Proto r],
                resp := fold (\<lambda>(k, v) w. Header_Set w k v) (securityHeaders D) (resp s)\<rparr>"
  have anon0: "\<not> authenticatedSession ?s0 r"
    using assms(3) loadSession_cong [of ?s0 s r] by (simp add: authenticatedSession_def)
  have b: "protectedChain (H f) r ?s0 = protectedChain (handlers D f) r ?s0"
    using assms(2) anon0 by (rule protectedChain_blocks)
  have l: "ServeHTTP (D\<lparr>handlers := H\<rparr>) r s =
     (let s1 = protectedChain (H f) r ?s0
      in case panicked s1 of
           None \<Rightarrow> s1
         | Some err \<Rightarrow>
             serverError
               (s1\<lparr>resp := Header_Set (resp s1) ''Connection'' ''close'', panicked := None\<rparr>) err)"
    using ServeHTTP_protected [OF f, of "D\<lparr>handlers := H\<rparr>" s] by simp
  show "ServeHTTP (D\<lparr>handlers := H\<rparr>) r s = ServeHTTP D r s"
    unfolding l ServeHTTP_protected [OF f, of D s] b ..
  show "\<not> storeDown s \<and> \<not> (stateChanging (Method r) \<and> \<not> csrfValid r) \<and>
          panicked s = None \<and> sent (resp s) = None \<longrightarrow>
            (\<exists>hs. sent (resp (ServeHTTP D r s)) = Some (StatusSeeOther, hs) \<and>
                  hs ''Location'' = Some [loginPage])"
  proof
    assume h: "\<not> storeDown s \<and> \<not> (stateChanging (Method r) \<and> \<not> csrfValid r) \<and>
          panicked s = None \<and> sent (resp s) = None"
    then have "resp (protectedChain (handlers D f) r ?s0) =
        http_Redirect (resp ?s0) r loginPage StatusSeeOther \<and>
        panicked (protectedChain (handlers D f) r ?s0) = panicked ?s0"
      using assms(2) anon0 by (intro protectedChain_redirects) simp_all
    with h have "resp (ServeHTTP D r s) = http_Redirect (resp ?s0) r loginPage StatusSeeOther"
      unfolding ServeHTTP_protected [OF f] by (simp add: Let_def)
    moreover have "sent (resp ?s0) = None"
      using h by (simp add: fold_Header_Set_sent)
    ultimately show "\<exists>hs. sent (resp (ServeHTTP D r s)) = Some (StatusSeeOther, hs) \<and>
                  hs ''Location'' = Some [loginPage]"
      using http_Redirect_sent [of "resp ?s0" r loginPage StatusSeeOther] by simp
  qed
qed


lemma sample_requests:
  "routeIn protectedRoutes (Method createRequest) (URLPath createRequest)"
  "\<not> isAuthenticated createRequest"
  "\<not> authenticatedSession freshWorld createRequest"
  "routeIn protectedRoutes (Method logoutRequest) (URLPath logoutRequest)"
  "\<not> isAuthenticated logoutRequest"
  "\<not> authenticatedSession freshWorld logoutRequest"
  "stateChanging (Method logoutRequest)" "\<not> csrfValid logoutRequest"
  "\<not> stateChanging (Method createRequest)"
  by (simp_all add: routeIn_protected createRequest_def logoutRequest_def isAuthenticated_def
      ctx_Value_def authenticatedSession_def loadSession_def validUser_def stateChanging_def
      csrfValid_def)

lemma fresh_flags:
  "\<not> storeDown freshWorld" "panicked freshWorld = None"
  by (simp_all add: freshWorld_def)

theorem protected_route_requires_authentication_witness:
  "routeIn protectedRoutes (Method createRequest) (URLPath createRequest) \<and>
   isAuthenticated createRequest = False \<and>
   authenticatedSession freshWorld createRequest = False \<and>
   ServeHTTP (sampleDeps\<lparr>handlers := \<lambda>f r s. s\<rparr>) createRequest freshWorld =
     ServeHTTP sampleDeps createRequest freshWorld \<and>
   (\<exists>hs. sent (resp (ServeHTTP sampleDeps createRequest freshWorld)) = Some (StatusSeeOther, hs) \<and>
         hs ''Location'' = Some [loginPage])"
proof -
  note t = protected_route_requires_authentication
    [OF sample_requests(1) sample_requests(2) sample_requests(3)]
  have 1: "ServeHTTP (sampleDeps\<lparr>handlers := \<lambda>f r s. s\<rparr>) createRequest freshWorld =
     ServeHTTP sampleDeps createRequest freshWorld"
    using t [where D = sampleDeps and H = "\<lambda>f r s. s"] by (rule conjunct1)
  have h: "\<not> storeDown freshWorld \<and>
      \<not> (stateChanging (Method createRequest) \<and> \<not> csrfValid createRequest) \<and>
      panicked freshWorld = None \<and> sent (resp freshWorld) = None"
    using sample_requests(9) fresh_flags fresh_sent by simp
  have 2: "\<exists>hs. sent (resp (ServeHTTP sampleDeps createRequest freshWorld)) =
      Some (StatusSeeOther, hs) \<and> hs ''Location'' = Some [loginPage]"
    using t [where D = sampleDeps and H = "\<lambda>f r s. s", THEN conjunct2] h by (rule mp)
  from sample_requests(1,2,3) 1 2 show ?thesis by simp
qed

text \<open>
  Claim C2 as stated fails for a POST without a valid CSRF token: CSRF validation stands
  before the authentication requirement in the chain, so POST /user/logout without an
  authenticated session and without a token is answered 400 Bad Request, not with a
  redirect.
\<close>

theorem logout_without_csrf_token_is_rejected:
  "routeIn protectedRoutes (Method logoutRequest) (URLPath logoutRequest) \<and>
   isAuthenticated logoutRequest = False \<and>
   authenticatedSession freshWorld logoutRequest = False \<and>
   statusCode (resp (ServeHTTP sampleDeps logoutRequest freshWorld)) = Some 400 \<and>
   body (resp (ServeHTTP sampleDeps logoutRequest freshWorld)) = ''Bad Request'' @ newline"
proof -
  from sample_requests(4) obtain f where
    f: "getValue (routeTable (innermost routes)) (Method logoutRequest) (URLPath logoutRequest) =
      Some (foldr Wrap [SessionLoadAndSave, NoSurf, Authenticate, RequireAuthentication]
              (HandlerFunc f))"
    using protected_lookup by blast
  let ?s0 = "freshWorld\<lparr>infoLog := infoLog freshWorld @
                 [Method logoutRequest @ '' '' @ URLPath logoutRequest @ '' '' @ Proto logoutRequest],
               resp := fold (\<lambda>(k, v) w. Header_Set w k v) (securityHeaders sampleDeps)
                         (resp freshWorld)\<rparr>"
  have "resp (protectedChain (handlers sampleDeps f) logoutRequest ?s0) =
      http_Error (resp ?s0) ''Bad Request'' 400 \<and>
      panicked (protectedChain (handlers sampleDeps f) logoutRequest ?s0) = panicked ?s0"
    using sample_requests(7,8) fresh_flags by (intro protectedChain_csrf_rejects) simp_all
  then have r: "resp (ServeHTTP sampleDeps logoutRequest freshWorld) =
      http_Error (resp ?s0) ''Bad Request'' 400"
    unfolding ServeHTTP_protected [OF f] using fresh_flags by (simp add: Let_def)
  have s0: "sent (resp ?s0) = None" "body (resp ?s0) = []"
    by (simp_all add: fold_Header_Set_sent fresh_sent sampleDeps_def Header_Set_def fresh_body)
  have 1: "statusCode (resp (ServeHTTP sampleDeps logoutRequest freshWorld)) = Some 400"
    unfolding r using s0 by (simp add: statusCode_def http_Error_sent_fresh)
  have 2: "body (resp (ServeHTTP sampleDeps logoutRequest freshWorld)) = ''Bad Request'' @ newline"
    unfolding r using s0 by (simp add: http_Error_body)
  from sample_requests(4,5,6) 1 2 show ?thesis by simp
qed

end
